theory Spec2Isabelle
  imports Main "HOL-Library.Sublist" "HOL-Library.List_Lexorder" "HOL-Library.Option_ord"
    "HOL-Library.Product_Lexorder"
begin

section \<open>Strings and the platform\<close>

text \<open>
  A JavaScript string is a sequence of UTF-16 code units; a code unit is modelled by its
  number. The regular expressions of the sources carry no \<open>u\<close> flag, so they work on code
  units, and so do \<open>slice\<close>, \<open>startsWith\<close> and \<open>length\<close>.
\<close>

type_synonym jsstring = "nat list"

definition lit :: "string \<Rightarrow> jsstring" where
  "lit s = map of_char s"

text \<open>
  The code units matched by \<open>\s\<close> and removed by \<open>trim()\<close> (ECMAScript WhiteSpace and
  LineTerminator): TAB, LF, VT, FF, CR, SP, NBSP, U+1680, U+2000..U+200A, U+2028, U+2029,
  U+202F, U+205F, U+3000 and U+FEFF.
\<close>

definition isWhiteSpace :: "nat \<Rightarrow> bool" where
  "isWhiteSpace c \<longleftrightarrow>
     (9 \<le> c \<and> c \<le> 13) \<or> c = 32 \<or> c = 160 \<or> c = 5760 \<or> (8192 \<le> c \<and> c \<le> 8202) \<or>
     c = 8232 \<or> c = 8233 \<or> c = 8239 \<or> c = 8287 \<or> c = 12288 \<or> c = 65279"

definition isAlnum :: "nat \<Rightarrow> bool" where
  "isAlnum c \<longleftrightarrow> (97 \<le> c \<and> c \<le> 122) \<or> (65 \<le> c \<and> c \<le> 90) \<or> (48 \<le> c \<and> c \<le> 57)"

definition trim :: "jsstring \<Rightarrow> jsstring" where
  "trim s = rev (dropWhile isWhiteSpace (rev (dropWhile isWhiteSpace s)))"

text \<open>\<open>s.replace(/X+/g, r)\<close> for a class \<open>X\<close> of code units: every maximal run becomes \<open>r\<close>.\<close>

fun replaceRuns :: "(nat \<Rightarrow> bool) \<Rightarrow> jsstring \<Rightarrow> jsstring \<Rightarrow> jsstring" where
  "replaceRuns X r [] = []"
| "replaceRuns X r [c] = (if X c then r else [c])"
| "replaceRuns X r (c # d # cs) =
     (if X c then (if X d then replaceRuns X r (d # cs) else r @ replaceRuns X r (d # cs))
      else c # replaceRuns X r (d # cs))"

text \<open>\<open>parts.join(sep)\<close>.\<close>

fun joinWith :: "jsstring \<Rightarrow> jsstring list \<Rightarrow> jsstring" where
  "joinWith sep [] = []"
| "joinWith sep [x] = x"
| "joinWith sep (x # y # ys) = x @ sep @ joinWith sep (y # ys)"

text \<open>A string used as a condition: absent and empty strings are falsy.\<close>

definition truthy :: "jsstring option \<Rightarrow> bool" where
  "truthy s = (case s of None \<Rightarrow> False | Some t \<Rightarrow> t \<noteq> [])"

text \<open>A thrown JavaScript \<open>Error\<close> with its message.\<close>

datatype error = Error jsstring

text \<open>JavaScript's \<open>String(n)\<close> for a non-negative integer below \<open>10^21\<close>: its decimal digits.\<close>

fun showNat :: "nat \<Rightarrow> jsstring" where
  "showNat n = (if n < 10 then [48 + n] else showNat (n div 10) @ [48 + n mod 10])"

declare showNat.simps [simp del]

text \<open>
  What the sources take from the platform (Node's \<open>path\<close> module and
  \<open>String.prototype.normalize\<close>) is a parameter of the model: the theorems hold for every
  implementation of it, POSIX or Windows.
\<close>

record ParsedPath =
  root :: jsstring
  dir :: jsstring
  base :: jsstring
  ext :: jsstring
  name :: jsstring

record platform =
  normalizeNFKD :: "jsstring \<Rightarrow> jsstring"
  pathJoin :: "jsstring list \<Rightarrow> jsstring"
  pathParse :: "jsstring \<Rightarrow> ParsedPath"
  pathDirname :: "jsstring \<Rightarrow> jsstring"
  pathBasename :: "jsstring \<Rightarrow> jsstring"
  pathIsAbsolute :: "jsstring \<Rightarrow> bool"

section \<open>Data model (src/types.ts)\<close>

text \<open>
  An optional field (\<open>title?: string\<close>) is an \<open>option\<close>; identifiers are JavaScript
  numbers holding integers. Field names carry a prefix naming their record. The creators,
  tags and collection names of an item are left out: they are read by three further
  queries and only copied into the YAML header, which an external library writes.
\<close>

datatype LayoutMode = ItemFolder | Flat | YearItem

datatype ConflictDecision = Overwrite | Skip | Cancel

record ZoteroAttachment =
  a_itemId :: int
  a_key :: jsstring
  a_title :: "jsstring option"
  a_contentType :: "jsstring option"
  a_linkMode :: "int option"
  a_path :: "jsstring option"
  a_filename :: "jsstring option"
  a_isPdf :: bool

record ZoteroAnnotation =
  h_itemId :: int
  h_parentItemId :: int
  h_type :: "jsstring option"
  h_text :: "jsstring option"
  h_comment :: "jsstring option"
  h_color :: "jsstring option"
  h_pageLabel :: "jsstring option"
  h_sortIndex :: "jsstring option"
  h_position :: "jsstring option"

record ZoteroNote =
  n_itemId :: int
  n_parentItemId :: int
  n_title :: "jsstring option"
  n_noteHtml :: jsstring
  n_noteMarkdown :: "jsstring option"

record ZoteroItemSummary =
  s_itemId :: int
  s_key :: jsstring
  s_libraryId :: int
  s_libraryName :: jsstring
  s_itemType :: jsstring
  s_title :: jsstring
  s_creatorsText :: jsstring
  s_date :: "jsstring option"
  s_year :: "jsstring option"
  s_dateAdded :: "jsstring option"
  s_dateModified :: "jsstring option"
  s_doi :: "jsstring option"
  s_tagsText :: "jsstring option"
  s_pdfCount :: int
  s_hasPdf :: bool
  s_noteCount :: int

record ZoteroItem =
  i_itemId :: int
  i_key :: jsstring
  i_libraryId :: int
  i_libraryName :: jsstring
  i_itemType :: jsstring
  i_title :: jsstring
  i_year :: "jsstring option"
  i_date :: "jsstring option"
  i_publicationTitle :: "jsstring option"
  i_volume :: "jsstring option"
  i_issue :: "jsstring option"
  i_pages :: "jsstring option"
  i_publisher :: "jsstring option"
  i_place :: "jsstring option"
  i_language :: "jsstring option"
  i_doi :: "jsstring option"
  i_url :: "jsstring option"
  i_abstract :: "jsstring option"
  i_dateAdded :: "jsstring option"
  i_dateModified :: "jsstring option"
  i_extra :: "jsstring option"
  i_attachments :: "ZoteroAttachment list"
  i_notes :: "ZoteroNote list"
  i_annotations :: "ZoteroAnnotation list"

record ExportResult =
  exported :: nat
  skipped :: nat
  failed :: nat
  cancelled :: bool
  warnings :: "jsstring list"

section \<open>Naming engine (src/export/naming.ts)\<close>

definition MAX_SLUG_LENGTH :: nat where
  "MAX_SLUG_LENGTH = 80"

text \<open>The class \<open>[a-zA-Z0-9._\-\s]\<close> kept by the first \<open>replace\<close> of \<open>sanitizeSegment\<close>.\<close>

definition isSegmentChar :: "nat \<Rightarrow> bool" where
  "isSegmentChar c \<longleftrightarrow> isAlnum c \<or> c = 46 \<or> c = 95 \<or> c = 45 \<or> isWhiteSpace c"

definition isHyphenOrDot :: "nat \<Rightarrow> bool" where
  "isHyphenOrDot c \<longleftrightarrow> c = 45 \<or> c = 46"

text \<open>\<open>s.replace(/^[-.]+|[-.]+$/g, '')\<close>.\<close>

definition stripHyphenDot :: "jsstring \<Rightarrow> jsstring" where
  "stripHyphenDot s = rev (dropWhile isHyphenOrDot (rev (dropWhile isHyphenOrDot s)))"

definition sanitizeSegment :: "platform \<Rightarrow> jsstring \<Rightarrow> jsstring" where
  "sanitizeSegment P input =
     take MAX_SLUG_LENGTH
       (stripHyphenDot
         (replaceRuns (\<lambda>c. c = 45) [45]
           (replaceRuns isWhiteSpace [45]
             (trim (filter isSegmentChar (normalizeNFKD P input))))))"

text \<open>\<open>a || b\<close> on strings: the empty string is falsy.\<close>

definition orElse :: "jsstring \<Rightarrow> jsstring \<Rightarrow> jsstring" where
  "orElse a b = (if a = [] then b else a)"

definition buildItemSlug :: "platform \<Rightarrow> ZoteroItem \<Rightarrow> jsstring" where
  "buildItemSlug P item =
     (let titlePart = orElse (sanitizeSegment P (i_title item)) (lit ''untitled'')
      in take (MAX_SLUG_LENGTH + length (i_key item) + 1) (i_key item @ lit ''-'' @ titlePart))"

section \<open>A sample platform\<close>

text \<open>
  Concrete inputs need a concrete platform. \<open>posix\<close> is Node on a POSIX system, restricted
  to what the examples below use: ASCII strings, which NFKD normalisation leaves as they
  are, and paths without empty, \<open>.\<close> or \<open>..\<close> segments, which \<open>path.join\<close> only glues
  together with \<open>/\<close>.
\<close>

definition afterLast :: "nat \<Rightarrow> jsstring \<Rightarrow> jsstring" where
  "afterLast sep s = rev (takeWhile (\<lambda>c. c \<noteq> sep) (rev s))"

definition beforeLast :: "nat \<Rightarrow> jsstring \<Rightarrow> jsstring" where
  "beforeLast sep s = rev (drop 1 (dropWhile (\<lambda>c. c \<noteq> sep) (rev s)))"

definition posixExt :: "jsstring \<Rightarrow> jsstring" where
  "posixExt b = (if 46 \<in> set (drop 1 b) then 46 # afterLast 46 b else [])"

definition posixParse :: "jsstring \<Rightarrow> ParsedPath" where
  "posixParse p =
     (let b = afterLast 47 p; e = posixExt b
      in \<lparr> root = (if take 1 p = [47] then [47] else []),
           dir = beforeLast 47 p, base = b, ext = e,
           name = take (length b - length e) b \<rparr>)"

definition posix :: platform where
  "posix = \<lparr> normalizeNFKD = (\<lambda>s. s),
             pathJoin = (\<lambda>parts. joinWith [47] (filter (\<lambda>p. p \<noteq> []) parts)),
             pathParse = posixParse,
             pathDirname = beforeLast 47,
             pathBasename = afterLast 47,
             pathIsAbsolute = (\<lambda>p. take 1 p = [47]) \<rparr>"

section \<open>Sample inputs\<close>

text \<open>A title of 81 ASCII characters: 79 letters, a hyphen and one more letter.\<close>

definition longTitle :: jsstring where
  "longTitle = lit ''aaaaaaaaaaaaaaaaaaaaaaaaaaaaaaaaaaaaaaaaaaaaaaaaaaaaaaaaaaaaaaaaaaaaaaaaaaaaaaa-b''"

definition sampleItem :: ZoteroItem where
  "sampleItem = \<lparr> i_itemId = 1, i_key = lit ''ABCD1234'', i_libraryId = 1,
     i_libraryName = lit ''My Library'', i_itemType = lit ''journalArticle'',
     i_title = lit ''My: Title Here'', i_year = Some (lit ''1995''), i_date = Some (lit ''1995''),
     i_publicationTitle = None, i_volume = None, i_issue = None, i_pages = None,
     i_publisher = None, i_place = None, i_language = None, i_doi = None, i_url = None,
     i_abstract = None, i_dateAdded = None, i_dateModified = None, i_extra = None,
     i_attachments = [], i_notes = [], i_annotations = [] \<rparr>"

section \<open>Document renderer (src/export/markdown.ts)\<close>

record MarkdownPayload =
  p_item :: ZoteroItem
  p_selectedAttachments :: "ZoteroAttachment list"
  p_exportedAttachmentFilenames :: "jsstring list"
  p_highlights :: "ZoteroAnnotation list"
  p_notes :: "ZoteroNote list"
  p_exportedAt :: "int option"

text \<open>The lines pushed to \<open>parts\<close> for the highlight at position \<open>index\<close>.\<close>

definition highlightParts :: "nat \<times> ZoteroAnnotation \<Rightarrow> jsstring list" where
  "highlightParts ih =
     (case ih of (index, highlight) \<Rightarrow>
        [lit ''### Highlight '' @ showNat (index + 1)] @
        (if truthy (h_pageLabel highlight)
         then [lit ''- Page: '' @ the (h_pageLabel highlight)] else []) @
        (if truthy (h_color highlight)
         then [lit ''- Color: '' @ the (h_color highlight)] else []) @
        (if truthy (h_text highlight) \<and> length (trim (the (h_text highlight))) > 0
         then [lit ''> '' @ trim (the (h_text highlight))] else []) @
        (if truthy (h_comment highlight) \<and> length (trim (the (h_comment highlight))) > 0
         then [lit ''Comment: '' @ trim (the (h_comment highlight))] else []) @
        [[]])"

definition renderHighlights :: "ZoteroAnnotation list \<Rightarrow> jsstring" where
  "renderHighlights highlights =
     (if length highlights = 0 then lit ''None\<newline>''
      else trim (joinWith (lit ''\<newline>'') (concat (map highlightParts (enumerate 0 highlights))))
           @ lit ''\<newline>'')"

definition noteParts :: "nat \<times> ZoteroNote \<Rightarrow> jsstring list" where
  "noteParts inote =
     (case inote of (index, note) \<Rightarrow>
        [lit ''### Note '' @ showNat (index + 1)] @
        (if truthy (n_title note) \<and> length (trim (the (n_title note))) > 0
         then [lit ''Title: '' @ trim (the (n_title note)), []] else []) @
        (let markdown = trim (case n_noteMarkdown note of None \<Rightarrow> [] | Some m \<Rightarrow> m)
         in [if length markdown > 0 then markdown else lit ''Empty note content.'']) @
        [[]])"

definition renderNotes :: "ZoteroNote list \<Rightarrow> jsstring" where
  "renderNotes notes =
     (if length notes = 0 then lit ''None\<newline>''
      else trim (joinWith (lit ''\<newline>'') (concat (map noteParts (enumerate 0 notes))))
           @ lit ''\<newline>'')"

text \<open>
  The YAML header is written by the external \<open>js-yaml\<close> from the payload's item, the exported
  file names and \<open>exportedAt.toISOString()\<close>; both calls can throw. \<open>yamlDump\<close> stands for
  the two together.
\<close>

definition buildMarkdown ::
  "(MarkdownPayload \<Rightarrow> error + jsstring) \<Rightarrow> MarkdownPayload \<Rightarrow> error + jsstring" where
  "buildMarkdown yamlDump payload =
     (case yamlDump payload of
        Inl e \<Rightarrow> Inl e
      | Inr yamlContent \<Rightarrow>
          (let title = orElse (i_title (p_item payload)) (lit ''Untitled'')
           in Inr (lit ''---\<newline>'' @ yamlContent @ lit ''---\<newline>\<newline># '' @ title @
                   lit ''\<newline>\<newline>## Highlights\<newline>\<newline>'' @
                   renderHighlights (p_highlights payload) @
                   lit ''\<newline>## Notes\<newline>\<newline>'' @
                   renderNotes (p_notes payload))))"


subsection \<open>A sample payload\<close>

definition samplePayload :: MarkdownPayload where
  "samplePayload = \<lparr> p_item = sampleItem, p_selectedAttachments = [],
     p_exportedAttachmentFilenames = [], p_highlights = [], p_notes = [],
     p_exportedAt = Some 1770724800000 \<rparr>"

definition sampleYaml :: "MarkdownPayload \<Rightarrow> error + jsstring" where
  "sampleYaml payload = Inr (lit ''zotero_key: '' @ i_key (p_item payload) @ lit ''\<newline>'')"

section \<open>The Zotero database\<close>

text \<open>
  The tables the queries below read, one record per row; a nullable column is an
  \<open>option\<close>. A query is a list comprehension over the tables in row order, and a
  \<open>LEFT JOIN\<close> yields one row with \<open>None\<close> when nothing matches.
\<close>

record ItemsRow =
  items_itemID :: int
  items_itemTypeID :: int
  items_libraryID :: int
  items_key :: jsstring
  items_dateAdded :: "jsstring option"
  items_dateModified :: "jsstring option"

record ItemTypesRow =
  itemTypes_itemTypeID :: int
  itemTypes_typeName :: jsstring

record LibrariesRow =
  libraries_libraryID :: int
  libraries_type :: jsstring

record GroupsRow =
  groups_libraryID :: int
  groups_name :: "jsstring option"

record ItemDataRow =
  itemData_itemID :: int
  itemData_fieldID :: int
  itemData_valueID :: int

record FieldsRow =
  fields_fieldID :: int
  fields_fieldName :: jsstring

record ItemDataValuesRow =
  itemDataValues_valueID :: int
  itemDataValues_value :: jsstring

record ItemAttachmentsRow =
  ia_itemID :: int
  ia_parentItemID :: "int option"
  ia_contentType :: "jsstring option"
  ia_linkMode :: "int option"
  ia_path :: "jsstring option"

record ItemNotesRow =
  itemNotes_itemID :: int
  itemNotes_parentItemID :: "int option"
  itemNotes_title :: "jsstring option"
  itemNotes_note :: "jsstring option"

record ItemAnnotationsRow =
  itemAnnotations_itemID :: int
  itemAnnotations_parentItemID :: "int option"
  itemAnnotations_type :: "jsstring option"
  itemAnnotations_text :: "jsstring option"
  itemAnnotations_comment :: "jsstring option"
  itemAnnotations_color :: "jsstring option"
  itemAnnotations_pageLabel :: "jsstring option"
  itemAnnotations_sortIndex :: "jsstring option"
  itemAnnotations_position :: "jsstring option"

record Database =
  db_items :: "ItemsRow list"
  db_itemTypes :: "ItemTypesRow list"
  db_libraries :: "LibrariesRow list"
  db_groups :: "GroupsRow list"
  db_itemData :: "ItemDataRow list"
  db_fields :: "FieldsRow list"
  db_itemDataValues :: "ItemDataValuesRow list"
  db_itemAttachments :: "ItemAttachmentsRow list"
  db_itemNotes :: "ItemNotesRow list"
  db_itemAnnotations :: "ItemAnnotationsRow list"

definition leftJoin :: "'a list \<Rightarrow> 'a option list" where
  "leftJoin rows = (if rows = [] then [None] else map Some rows)"

definition coalesce :: "'a option \<Rightarrow> 'a \<Rightarrow> 'a" where
  "coalesce v d = (case v of None \<Rightarrow> d | Some x \<Rightarrow> x)"

text \<open>
  \<open>LOWER\<close> of SQLite folds the ASCII letters only. JavaScript's \<open>toLowerCase\<close> folds more,
  but no code unit other than \<open>P\<close>, \<open>D\<close> and \<open>F\<close> lower-cases to \<open>p\<close>, \<open>d\<close> or \<open>f\<close>, so
  for the tests against \<open>pdf\<close> and \<open>.pdf\<close> made below the two agree.
\<close>

definition toLowerCase :: "jsstring \<Rightarrow> jsstring" where
  "toLowerCase s = map (\<lambda>c. if 65 \<le> c \<and> c \<le> 90 then c + 32 else c) s"

definition showInt :: "int \<Rightarrow> jsstring" where
  "showInt i = (if i < 0 then 45 # showNat (nat (- i)) else showNat (nat i))"

section \<open>Row mapper (src/zotero/queries.ts)\<close>

record BaseItemRow =
  r_itemID :: int
  r_key :: jsstring
  r_libraryID :: int
  r_libraryName :: "jsstring option"
  r_itemType :: jsstring
  r_title :: "jsstring option"
  r_creatorsText :: "jsstring option"
  r_date :: "jsstring option"
  r_dateAdded :: "jsstring option"
  r_dateModified :: "jsstring option"
  r_doi :: "jsstring option"
  r_tagsText :: "jsstring option"
  r_pdfCount :: "int option"
  r_noteCount :: "int option"

definition isDigit :: "nat \<Rightarrow> bool" where
  "isDigit c \<longleftrightarrow> 48 \<le> c \<and> c \<le> 57"

text \<open>The first match of \<open>/(\d{4})/\<close>.\<close>

fun matchFourDigits :: "jsstring \<Rightarrow> jsstring option" where
  "matchFourDigits [] = None"
| "matchFourDigits (c # cs) =
     (if 4 \<le> length (c # cs) \<and> list_all isDigit (take 4 (c # cs)) then Some (take 4 (c # cs))
      else matchFourDigits cs)"

definition extractYear :: "jsstring option \<Rightarrow> jsstring option" where
  "extractYear dateValue =
     (if \<not> truthy dateValue then None else matchFourDigits (the dateValue))"

definition mapSummary :: "BaseItemRow \<Rightarrow> ZoteroItemSummary" where
  "mapSummary row =
     (let pdfCount = coalesce (r_pdfCount row) 0;
          noteCount = coalesce (r_noteCount row) 0
      in \<lparr> s_itemId = r_itemID row,
           s_key = r_key row,
           s_libraryId = r_libraryID row,
           s_libraryName = coalesce (r_libraryName row) (lit ''Library '' @ showInt (r_libraryID row)),
           s_itemType = r_itemType row,
           s_title = orElse (case r_title row of None \<Rightarrow> [] | Some t \<Rightarrow> trim t) (lit ''Untitled''),
           s_creatorsText = (case r_creatorsText row of None \<Rightarrow> [] | Some t \<Rightarrow> trim t),
           s_date = r_date row,
           s_year = extractYear (r_date row),
           s_dateAdded = r_dateAdded row,
           s_dateModified = r_dateModified row,
           s_doi = r_doi row,
           s_tagsText = r_tagsText row,
           s_pdfCount = pdfCount,
           s_hasPdf = (pdfCount > 0),
           s_noteCount = noteCount \<rparr>)"

text \<open>
  The common table expression \<open>attachment_values\<close> of \<open>baseItemSummariesSql\<close>: the group of
  one parent item, \<open>None\<close> when the item has no attachment row (the group does not exist).
\<close>

definition sqlIsPdf :: "ItemAttachmentsRow \<Rightarrow> bool" where
  "sqlIsPdf ia \<longleftrightarrow>
     sublist (lit ''pdf'') (toLowerCase (coalesce (ia_contentType ia) [])) \<or>
     suffix (lit ''.pdf'') (toLowerCase (coalesce (ia_path ia) []))"

definition attachment_values :: "Database \<Rightarrow> int \<Rightarrow> int option" where
  "attachment_values db itemID =
     (let grp = [ia \<leftarrow> db_itemAttachments db. ia_parentItemID ia = Some itemID]
      in if grp = [] then None
         else Some (sum_list (map (\<lambda>ia. if sqlIsPdf ia then 1 else 0) grp)))"

text \<open>\<open>note_targets\<close>: pairs of a root item and an item whose notes count for it.\<close>

definition note_targets :: "Database \<Rightarrow> (int \<times> int) list" where
  "note_targets db =
     [(items_itemID i, items_itemID i). i \<leftarrow> db_items db] @
     [(the (ia_parentItemID ia), ia_itemID ia). ia \<leftarrow> db_itemAttachments db, ia_parentItemID ia \<noteq> None]"

text \<open>\<open>note_values\<close>: \<open>COUNT(DISTINCT n.itemID)\<close> of the group of one root item.\<close>

definition note_values :: "Database \<Rightarrow> int \<Rightarrow> int option" where
  "note_values db itemID =
     (let grp = [itemNotes_itemID n. nt \<leftarrow> note_targets db, fst nt = itemID,
                   n \<leftarrow> db_itemNotes db, itemNotes_parentItemID n = Some (snd nt)]
      in if grp = [] then None else Some (int (length (remdups grp))))"

text \<open>
  A row of the final \<open>SELECT\<close> for a base item: it joins \<open>items\<close>, and its last two columns
  are \<open>COALESCE(av.pdfCount, 0)\<close> and \<open>COALESCE(nv.noteCount, 0)\<close> for that item. The other
  columns (type, fields, creators, tags, library name) play no part below.
\<close>

definition summaryRow :: "Database \<Rightarrow> BaseItemRow \<Rightarrow> bool" where
  "summaryRow db row \<longleftrightarrow>
     r_itemID row \<in> set (map items_itemID (db_items db)) \<and>
     r_pdfCount row = Some (coalesce (attachment_values db (r_itemID row)) 0) \<and>
     r_noteCount row = Some (coalesce (note_values db (r_itemID row)) 0)"

text \<open>
  The spec's words for \<open>noteCount\<close>: the notes whose parent is the item itself or one of its
  attachments, counted once per note identifier.
\<close>

definition notesOfItem :: "Database \<Rightarrow> int \<Rightarrow> int set" where
  "notesOfItem db itemID =
     {itemNotes_itemID n | n. n \<in> set (db_itemNotes db) \<and>
        (itemNotes_parentItemID n = Some itemID \<or>
         (\<exists>ia \<in> set (db_itemAttachments db). ia_parentItemID ia = Some itemID \<and>
            itemNotes_parentItemID n = Some (ia_itemID ia)))}"


section \<open>Aggregate loader (src/zotero/queries.ts)\<close>

text \<open>
  \<open>getFieldMap\<close>: the field rows of an item folded into a map; a later value for a name that
  already has a non-empty value is appended after \<open>; \<close>. Field names are Zotero's own, none
  of which is a property every JavaScript object inherits.
\<close>

definition fieldRows :: "Database \<Rightarrow> int \<Rightarrow> (jsstring \<times> jsstring) list" where
  "fieldRows db itemId =
     [(fields_fieldName f, itemDataValues_value v).
        idr \<leftarrow> db_itemData db,
        f \<leftarrow> db_fields db, fields_fieldID f = itemData_fieldID idr,
        v \<leftarrow> db_itemDataValues db, itemDataValues_valueID v = itemData_valueID idr,
        itemData_itemID idr = itemId]"

definition getFieldMap :: "Database \<Rightarrow> int \<Rightarrow> (jsstring \<rightharpoonup> jsstring)" where
  "getFieldMap db itemId =
     foldl (\<lambda>m (fieldName, v).
              if truthy (m fieldName) then m(fieldName \<mapsto> the (m fieldName) @ lit ''; '' @ v)
              else m(fieldName \<mapsto> v))
       Map.empty (fieldRows db itemId)"

definition isSlash :: "nat \<Rightarrow> bool" where
  "isSlash c \<longleftrightarrow> c = 47 \<or> c = 92"

text \<open>\<open>s.split(/[/\\]/).pop()\<close>: what follows the last slash or backslash.\<close>

definition lastSegment :: "jsstring \<Rightarrow> jsstring" where
  "lastSegment s = rev (takeWhile (\<lambda>c. \<not> isSlash c) (rev s))"

definition deriveAttachmentFilename :: "jsstring option \<Rightarrow> jsstring \<Rightarrow> jsstring" where
  "deriveAttachmentFilename attachmentPath key =
     (if \<not> truthy attachmentPath then key @ lit ''.pdf''
      else
        (let withoutPrefix =
               (if prefix (lit ''storage:'') (the attachmentPath)
                then drop (length (lit ''storage:'')) (the attachmentPath)
                else the attachmentPath);
             trimmed = dropWhile isSlash withoutPrefix;
             base = lastSegment trimmed
         in orElse base (key @ lit ''.pdf'')))"

text \<open>The rows of the query of \<open>getAttachmentsForItem\<close>, ordered by \<open>ia.itemID\<close>.\<close>

definition titleValues :: "Database \<Rightarrow> int \<Rightarrow> jsstring list" where
  "titleValues db itemID =
     [itemDataValues_value v.
        idr \<leftarrow> db_itemData db,
        f \<leftarrow> db_fields db, fields_fieldID f = itemData_fieldID idr,
        v \<leftarrow> db_itemDataValues db, itemDataValues_valueID v = itemData_valueID idr,
        fields_fieldName f = lit ''title'', itemData_itemID idr = itemID]"

definition attachmentRows ::
  "Database \<Rightarrow> int \<Rightarrow> (ItemAttachmentsRow \<times> ItemsRow \<times> jsstring option) list" where
  "attachmentRows db itemId =
     sort_key (\<lambda>row. ia_itemID (fst row))
       [(ia, ai, tf).
          ia \<leftarrow> db_itemAttachments db,
          ai \<leftarrow> db_items db, items_itemID ai = ia_itemID ia,
          tf \<leftarrow> leftJoin (titleValues db (ia_itemID ia)),
          ia_parentItemID ia = Some itemId]"

definition mapAttachment ::
  "ItemAttachmentsRow \<times> ItemsRow \<times> jsstring option \<Rightarrow> ZoteroAttachment" where
  "mapAttachment row =
     (case row of (ia, ai, tf) \<Rightarrow>
        (let contentType = ia_contentType ia;
             attachmentPath = ia_path ia;
             filename = deriveAttachmentFilename attachmentPath (items_key ai);
             isPdf = ((case contentType of None \<Rightarrow> False
                       | Some ct \<Rightarrow> sublist (lit ''pdf'') (toLowerCase ct)) \<or>
                      suffix (lit ''.pdf'') (toLowerCase filename))
         in \<lparr> a_itemId = ia_itemID ia, a_key = items_key ai, a_title = tf,
              a_contentType = contentType, a_linkMode = ia_linkMode ia,
              a_path = attachmentPath, a_filename = Some filename, a_isPdf = isPdf \<rparr>))"

definition getAttachmentsForItem :: "Database \<Rightarrow> int \<Rightarrow> ZoteroAttachment list" where
  "getAttachmentsForItem db itemId = map mapAttachment (attachmentRows db itemId)"

definition parentIn :: "int option \<Rightarrow> int list \<Rightarrow> bool" where
  "parentIn parent ids = (case parent of None \<Rightarrow> False | Some p \<Rightarrow> p \<in> set ids)"

definition mapNote :: "ItemNotesRow \<Rightarrow> ZoteroNote" where
  "mapNote row =
     \<lparr> n_itemId = itemNotes_itemID row, n_parentItemId = the (itemNotes_parentItemID row),
       n_title = itemNotes_title row, n_noteHtml = coalesce (itemNotes_note row) [],
       n_noteMarkdown = None \<rparr>"

definition getNotesForItemAndAttachments :: "Database \<Rightarrow> int \<Rightarrow> int list \<Rightarrow> ZoteroNote list" where
  "getNotesForItemAndAttachments db itemId attachmentIds =
     (let parentRows =
            sort_key itemNotes_itemID
              [n \<leftarrow> db_itemNotes db. itemNotes_parentItemID n = Some itemId];
          attachmentRows =
            (if length attachmentIds > 0
             then sort_key itemNotes_itemID
                    [n \<leftarrow> db_itemNotes db. parentIn (itemNotes_parentItemID n) attachmentIds]
             else [])
      in map mapNote parentRows @ map mapNote attachmentRows)"

text \<open>
  Annotations are ordered by parent, sort index and identifier; a \<open>NULL\<close> sort index comes
  first. Sort indexes are ASCII digits, on which SQLite's byte order is the order of the code
  units.
\<close>

definition mapAnnotation :: "ItemAnnotationsRow \<Rightarrow> ZoteroAnnotation" where
  "mapAnnotation row =
     \<lparr> h_itemId = itemAnnotations_itemID row,
       h_parentItemId = the (itemAnnotations_parentItemID row),
       h_type = itemAnnotations_type row, h_text = itemAnnotations_text row,
       h_comment = itemAnnotations_comment row, h_color = itemAnnotations_color row,
       h_pageLabel = itemAnnotations_pageLabel row, h_sortIndex = itemAnnotations_sortIndex row,
       h_position = itemAnnotations_position row \<rparr>"

definition getAnnotationsForAttachments :: "Database \<Rightarrow> int list \<Rightarrow> ZoteroAnnotation list" where
  "getAnnotationsForAttachments db attachmentIds =
     (if length attachmentIds = 0 then []
      else map mapAnnotation
             (sort_key (\<lambda>row. (the (itemAnnotations_parentItemID row),
                                itemAnnotations_sortIndex row, itemAnnotations_itemID row))
                [row \<leftarrow> db_itemAnnotations db.
                   parentIn (itemAnnotations_parentItemID row) attachmentIds]))"

text \<open>
  The rows of the base query of \<open>getItemExportData\<close>; \<open>runOne\<close> takes the first. The
  query's \<open>libraryName\<close> is never \<open>NULL\<close>, so the \<open>??\<close> fallback of the source is never
  taken.
\<close>

definition baseRows ::
  "Database \<Rightarrow> int \<Rightarrow> (ItemsRow \<times> ItemTypesRow \<times> LibrariesRow option \<times> GroupsRow option) list" where
  "baseRows db itemId =
     [(i, it, l, g).
        i \<leftarrow> db_items db,
        it \<leftarrow> db_itemTypes db, itemTypes_itemTypeID it = items_itemTypeID i,
        l \<leftarrow> leftJoin [l \<leftarrow> db_libraries db. libraries_libraryID l = items_libraryID i],
        g \<leftarrow> leftJoin [g \<leftarrow> db_groups db. groups_libraryID g = items_libraryID i],
        items_itemID i = itemId]"

definition baseLibraryName ::
  "ItemsRow \<Rightarrow> LibrariesRow option \<Rightarrow> GroupsRow option \<Rightarrow> jsstring" where
  "baseLibraryName i l g =
     coalesce (case g of None \<Rightarrow> None | Some grp \<Rightarrow> groups_name grp)
       (if map_option libraries_type l = Some (lit ''user'') then lit ''My Library''
        else lit ''Library '' @ showInt (items_libraryID i))"

definition getItemExportData :: "Database \<Rightarrow> int \<Rightarrow> error + ZoteroItem" where
  "getItemExportData db itemId =
     (case baseRows db itemId of
        [] \<Rightarrow> Inl (Error (lit ''Could not load Zotero item '' @ showInt itemId @ lit ''.''))
      | (i, it, l, g) # _ \<Rightarrow>
          (let fields = getFieldMap db itemId;
               attachments = getAttachmentsForItem db itemId;
               attachmentIds = map a_itemId attachments;
               notes = getNotesForItemAndAttachments db itemId attachmentIds;
               annotations = getAnnotationsForAttachments db attachmentIds;
               date = fields (lit ''date'')
           in Inr \<lparr> i_itemId = items_itemID i,
                    i_key = items_key i,
                    i_libraryId = items_libraryID i,
                    i_libraryName = baseLibraryName i l g,
                    i_itemType = itemTypes_typeName it,
                    i_title = coalesce (fields (lit ''title'')) (lit ''Untitled''),
                    i_year = extractYear date,
                    i_date = date,
                    i_publicationTitle = fields (lit ''publicationTitle''),
                    i_volume = fields (lit ''volume''),
                    i_issue = fields (lit ''issue''),
                    i_pages = fields (lit ''pages''),
                    i_publisher = fields (lit ''publisher''),
                    i_place = fields (lit ''place''),
                    i_language = fields (lit ''language''),
                    i_doi = fields (lit ''DOI''),
                    i_url = fields (lit ''url''),
                    i_abstract = fields (lit ''abstractNote''),
                    i_dateAdded = items_dateAdded i,
                    i_dateModified = items_dateModified i,
                    i_extra = fields (lit ''extra''),
                    i_attachments = attachments,
                    i_notes = notes,
                    i_annotations = annotations \<rparr>))"


subsection \<open>Sample databases\<close>

text \<open>The database of test/queries.test.ts, as far as the tables above go.\<close>

definition testDb :: Database where
  "testDb = \<lparr>
     db_items =
       [\<lparr> items_itemID = 1, items_itemTypeID = 1, items_libraryID = 1, items_key = lit ''ITEM1KEY'',
          items_dateAdded = Some (lit ''2024-01-01''), items_dateModified = Some (lit ''2024-01-02'') \<rparr>,
        \<lparr> items_itemID = 2, items_itemTypeID = 1, items_libraryID = 2, items_key = lit ''ITEM2KEY'',
          items_dateAdded = Some (lit ''2024-01-01''), items_dateModified = Some (lit ''2024-01-03'') \<rparr>,
        \<lparr> items_itemID = 11, items_itemTypeID = 2, items_libraryID = 1, items_key = lit ''ATTACH1'',
          items_dateAdded = Some (lit ''2024-01-01''), items_dateModified = Some (lit ''2024-01-02'') \<rparr>],
     db_itemTypes =
       [\<lparr> itemTypes_itemTypeID = 1, itemTypes_typeName = lit ''journalArticle'' \<rparr>,
        \<lparr> itemTypes_itemTypeID = 2, itemTypes_typeName = lit ''attachment'' \<rparr>,
        \<lparr> itemTypes_itemTypeID = 3, itemTypes_typeName = lit ''note'' \<rparr>,
        \<lparr> itemTypes_itemTypeID = 4, itemTypes_typeName = lit ''annotation'' \<rparr>],
     db_libraries =
       [\<lparr> libraries_libraryID = 1, libraries_type = lit ''user'' \<rparr>,
        \<lparr> libraries_libraryID = 2, libraries_type = lit ''group'' \<rparr>],
     db_groups = [\<lparr> groups_libraryID = 2, groups_name = Some (lit ''Group Library'') \<rparr>],
     db_itemData =
       [\<lparr> itemData_itemID = 1, itemData_fieldID = 1, itemData_valueID = 1 \<rparr>,
        \<lparr> itemData_itemID = 1, itemData_fieldID = 2, itemData_valueID = 2 \<rparr>,
        \<lparr> itemData_itemID = 2, itemData_fieldID = 1, itemData_valueID = 6 \<rparr>],
     db_fields =
       [\<lparr> fields_fieldID = 1, fields_fieldName = lit ''title'' \<rparr>,
        \<lparr> fields_fieldID = 2, fields_fieldName = lit ''date'' \<rparr>],
     db_itemDataValues =
       [\<lparr> itemDataValues_valueID = 1, itemDataValues_value = lit ''Distributed Cognition'' \<rparr>,
        \<lparr> itemDataValues_valueID = 2, itemDataValues_value = lit ''1995'' \<rparr>,
        \<lparr> itemDataValues_valueID = 6, itemDataValues_value = lit ''Group Library Paper'' \<rparr>],
     db_itemAttachments =
       [\<lparr> ia_itemID = 11, ia_parentItemID = Some 1, ia_contentType = Some (lit ''application/pdf''),
          ia_linkMode = Some 1, ia_path = Some (lit ''storage:paper.pdf'') \<rparr>],
     db_itemNotes =
       [\<lparr> itemNotes_itemID = 21, itemNotes_parentItemID = Some 1,
          itemNotes_title = Some (lit ''Item Note''), itemNotes_note = Some (lit ''<p>Item note content</p>'') \<rparr>,
        \<lparr> itemNotes_itemID = 22, itemNotes_parentItemID = Some 11,
          itemNotes_title = Some (lit ''Attachment Note''),
          itemNotes_note = Some (lit ''<p>Attachment note content</p>'') \<rparr>],
     db_itemAnnotations =
       [\<lparr> itemAnnotations_itemID = 31, itemAnnotations_parentItemID = Some 11,
          itemAnnotations_type = Some (lit ''highlight''), itemAnnotations_text = Some (lit ''Important quote''),
          itemAnnotations_comment = Some (lit ''Good point''), itemAnnotations_color = Some (lit ''#ff0''),
          itemAnnotations_pageLabel = Some (lit ''4''), itemAnnotations_sortIndex = Some (lit ''0001''),
          itemAnnotations_position = Some (lit ''{}'') \<rparr>] \<rparr>"

text \<open>The row the summary query returns for an item, as far as its three modelled columns go.\<close>

definition summaryRowOf :: "Database \<Rightarrow> int \<Rightarrow> BaseItemRow" where
  "summaryRowOf db itemID =
     \<lparr> r_itemID = itemID, r_key = [], r_libraryID = 1, r_libraryName = None, r_itemType = [],
       r_title = None, r_creatorsText = None, r_date = None, r_dateAdded = None,
       r_dateModified = None, r_doi = None, r_tagsText = None,
       r_pdfCount = Some (coalesce (attachment_values db itemID) 0),
       r_noteCount = Some (coalesce (note_values db itemID) 0) \<rparr>"

text \<open>
  An item whose only attachment is a linked web page: content type \<open>text/html\<close> and no
  path.
\<close>

definition webLinkDb :: Database where
  "webLinkDb = \<lparr>
     db_items =
       [\<lparr> items_itemID = 1, items_itemTypeID = 1, items_libraryID = 1, items_key = lit ''ITEM1KEY'',
          items_dateAdded = None, items_dateModified = None \<rparr>,
        \<lparr> items_itemID = 11, items_itemTypeID = 2, items_libraryID = 1, items_key = lit ''ATTACH1'',
          items_dateAdded = None, items_dateModified = None \<rparr>],
     db_itemTypes =
       [\<lparr> itemTypes_itemTypeID = 1, itemTypes_typeName = lit ''journalArticle'' \<rparr>,
        \<lparr> itemTypes_itemTypeID = 2, itemTypes_typeName = lit ''attachment'' \<rparr>],
     db_libraries = [\<lparr> libraries_libraryID = 1, libraries_type = lit ''user'' \<rparr>],
     db_groups = [],
     db_itemData = [],
     db_fields = [],
     db_itemDataValues = [],
     db_itemAttachments =
       [\<lparr> ia_itemID = 11, ia_parentItemID = Some 1, ia_contentType = Some (lit ''text/html''),
          ia_linkMode = Some 3, ia_path = None \<rparr>],
     db_itemNotes = [],
     db_itemAnnotations = [] \<rparr>"


section \<open>Unique target paths (src/export/naming.ts)\<close>

text \<open>
  \<open>pathExists\<close> is the existence probe on the file system as it is during the call; nothing
  writes between two probes (one writer). The \<open>while (true)\<close> loop need not end: not
  returning is \<open>None\<close>. The counter is a JavaScript number, exact on the integers below
  \<open>2^53\<close>, far more than a directory holds; it is a natural number here.
\<close>

partial_function (option) probeSuffix ::
  "(nat \<Rightarrow> jsstring) \<Rightarrow> (jsstring \<Rightarrow> bool) \<Rightarrow> nat \<Rightarrow> jsstring option" where
  "probeSuffix candidate pathExists suffix' =
     (if \<not> pathExists (candidate suffix') then Some (candidate suffix')
      else probeSuffix candidate pathExists (suffix' + 1))"

definition uniqueCandidate :: "platform \<Rightarrow> jsstring \<Rightarrow> nat \<Rightarrow> jsstring" where
  "uniqueCandidate P targetPath suffix' =
     (let parsed = pathParse P targetPath
      in pathJoin P [dir parsed, name parsed @ lit ''-'' @ showNat suffix' @ ext parsed])"

definition makeUniqueFilePath ::
  "platform \<Rightarrow> (jsstring \<Rightarrow> bool) \<Rightarrow> jsstring \<Rightarrow> jsstring option" where
  "makeUniqueFilePath P pathExists targetPath =
     (if \<not> pathExists targetPath then Some targetPath
      else probeSuffix (uniqueCandidate P targetPath) pathExists 2)"


section \<open>Output paths (src/export/naming.ts)\<close>

definition sanitizeFilename :: "platform \<Rightarrow> jsstring \<Rightarrow> jsstring" where
  "sanitizeFilename P filename =
     (let parsed = pathParse P filename;
          name' = orElse (sanitizeSegment P (name parsed)) (lit ''attachment'');
          ext' = filter (\<lambda>c. isAlnum c \<or> c = 46) (ext parsed)
      in name' @ ext')"

record ItemOutputPaths =
  itemFolder :: "jsstring option"
  markdownPath :: jsstring
  flatPrefix :: "jsstring option"

definition resolveItemOutputPaths ::
  "platform \<Rightarrow> jsstring \<Rightarrow> LayoutMode \<Rightarrow> jsstring \<Rightarrow> jsstring option \<Rightarrow> ItemOutputPaths" where
  "resolveItemOutputPaths P outputRoot layoutMode slug year =
     (if layoutMode = Flat then
        \<lparr> itemFolder = None,
          markdownPath = pathJoin P [outputRoot, slug @ lit ''.md''],
          flatPrefix = Some (slug @ lit ''__'') \<rparr>
      else if layoutMode = YearItem then
        (let yearFolder =
               orElse (sanitizeSegment P (if truthy year then the year else lit ''unknown-year''))
                 (lit ''unknown-year'');
             folder = pathJoin P [outputRoot, yearFolder, slug]
         in \<lparr> itemFolder = Some folder,
              markdownPath = pathJoin P [folder, lit ''item.md''],
              flatPrefix = None \<rparr>)
      else
        (let folder = pathJoin P [outputRoot, slug]
         in \<lparr> itemFolder = Some folder,
              markdownPath = pathJoin P [folder, lit ''item.md''],
              flatPrefix = None \<rparr>))"

section \<open>Export orchestrator (src/export/exporter.ts)\<close>

text \<open>
  The decision callbacks belong to the options, as in the source; a rejected promise is an
  \<open>Inl\<close>. They decide and do not touch the file system. A \<open>Date\<close> is its time value,
  \<open>None\<close> for an invalid date; \<open>now\<close> is optional.

  \<open>outputChannel\<close> is the \<open>appendLine\<close> of the caller's \<open>LogChannel\<close>: from the message and
  the lines the channel holds it gives the lines the channel holds afterwards, and the
  error it throws, if it throws. The exporter calls it and does not look inside.
\<close>

record ExportOptions =
  outputRootPath :: jsstring
  layoutMode :: LayoutMode
  storagePath :: jsstring
  outputChannel :: "jsstring \<Rightarrow> jsstring list \<Rightarrow> error option \<times> jsstring list"
  resolveConflict :: "jsstring \<Rightarrow> ZoteroItem \<Rightarrow> error + ConflictDecision"
  selectPdfAttachments :: "ZoteroItem \<Rightarrow> ZoteroAttachment list \<Rightarrow> error + ZoteroAttachment list"
  now :: "int option option"

text \<open>
  The file system is a state of some type \<open>'f\<close> with the operations of \<open>node:fs\<close> the
  exporter calls. Every operation but \<open>access\<close> can throw, and may have changed the state
  when it does.
  \<open>fsAccess\<close> is \<open>pathExists\<close>: whether \<open>fs.access\<close> succeeds. The runtime also holds the
  two external libraries (Turndown and js-yaml) and the clock.
\<close>

record Dirent =
  d_name :: jsstring
  d_isFile :: bool

record 'f runtime =
  fsAccess :: "'f \<Rightarrow> jsstring \<Rightarrow> bool"
  fsMkdir :: "jsstring \<Rightarrow> 'f \<Rightarrow> error option \<times> 'f"
  fsRm :: "jsstring \<Rightarrow> bool \<Rightarrow> 'f \<Rightarrow> error option \<times> 'f"
  fsReaddir :: "jsstring \<Rightarrow> 'f \<Rightarrow> error + Dirent list"
  fsCopyFile :: "jsstring \<Rightarrow> jsstring \<Rightarrow> 'f \<Rightarrow> error option \<times> 'f"
  fsWriteFile :: "jsstring \<Rightarrow> jsstring \<Rightarrow> 'f \<Rightarrow> error option \<times> 'f"
  turndown :: "jsstring \<Rightarrow> error + jsstring"
  dumpYaml :: "MarkdownPayload \<Rightarrow> error + jsstring"
  newDate :: "int option"

text \<open>
  What a run changes: the file system, the result under construction and the lines the
  output channel holds.
\<close>

record 'f world =
  w_fs :: 'f
  w_result :: ExportResult
  w_log :: "jsstring list"

text \<open>
  An effectful step returns a value or the thrown error, with the world it leaves; \<open>None\<close>
  is a step that never returns.
\<close>

type_synonym ('f, 'a) io = "'f world \<Rightarrow> ((error + 'a) \<times> 'f world) option"

definition ioBind :: "('f, 'a) io \<Rightarrow> ('a \<Rightarrow> ('f, 'b) io) \<Rightarrow> ('f, 'b) io" where
  "ioBind m f w =
     (case m w of
        None \<Rightarrow> None
      | Some (Inl e, w') \<Rightarrow> Some (Inl e, w')
      | Some (Inr x, w') \<Rightarrow> f x w')"

definition ioPure :: "error + 'a \<Rightarrow> ('f, 'a) io" where
  "ioPure r w = Some (r, w)"

definition ioFs :: "('f \<Rightarrow> error option \<times> 'f) \<Rightarrow> ('f, unit) io" where
  "ioFs op w =
     (case op (w_fs w) of
        (None, f') \<Rightarrow> Some (Inr (), w\<lparr>w_fs := f'\<rparr>)
      | (Some e, f') \<Rightarrow> Some (Inl e, w\<lparr>w_fs := f'\<rparr>))"

text \<open>\<open>options.outputChannel.appendLine(message)\<close>: a call of the caller's channel.\<close>

definition appendLine :: "ExportOptions \<Rightarrow> jsstring \<Rightarrow> ('f, unit) io" where
  "appendLine options message w =
     (case outputChannel options message (w_log w) of
        (None, lines') \<Rightarrow> Some (Inr (), w\<lparr>w_log := lines'\<rparr>)
      | (Some e, lines') \<Rightarrow> Some (Inl e, w\<lparr>w_log := lines'\<rparr>))"

text \<open>The warning is pushed to the result first, then the channel is called.\<close>

definition appendWarning :: "ExportOptions \<Rightarrow> jsstring \<Rightarrow> ('f, unit) io" where
  "appendWarning options warning w =
     appendLine options (lit ''[warning] '' @ warning)
       (w\<lparr>w_result := (w_result w)\<lparr>warnings := warnings (w_result w) @ [warning]\<rparr>\<rparr>)"

text \<open>\<open>/^[A-Za-z]:\\/\<close>.\<close>

definition isDriveLetterPath :: "jsstring \<Rightarrow> bool" where
  "isDriveLetterPath p \<longleftrightarrow>
     (case p of
        c # d # e # _ \<Rightarrow> ((65 \<le> c \<and> c \<le> 90) \<or> (97 \<le> c \<and> c \<le> 122)) \<and> d = 58 \<and> e = 92
      | _ \<Rightarrow> False)"

definition resolveAttachmentSourcePath ::
  "platform \<Rightarrow> jsstring \<Rightarrow> ZoteroAttachment \<Rightarrow> jsstring option" where
  "resolveAttachmentSourcePath P storagePath' attachment =
     (if \<not> truthy (a_path attachment) then None
      else
        (let attachmentPath = the (a_path attachment)
         in if prefix (lit ''storage:'') attachmentPath then
              (let relativePart = dropWhile isSlash (drop (length (lit ''storage:'')) attachmentPath);
                   filename =
                     orElse relativePart
                       (orElse (coalesce (a_filename attachment) [])
                          (a_key attachment @ lit ''.pdf''))
               in Some (pathJoin P [storagePath', a_key attachment, filename]))
            else if pathIsAbsolute P attachmentPath then Some attachmentPath
            else if isDriveLetterPath attachmentPath then Some attachmentPath
            else None))"

definition getTargetPdfPath ::
  "platform \<Rightarrow> jsstring \<Rightarrow> LayoutMode \<Rightarrow> jsstring option \<Rightarrow> jsstring \<Rightarrow> jsstring" where
  "getTargetPdfPath P markdownPath' layoutMode' flatPrefix' sourceFilename =
     (let sanitized = sanitizeFilename P sourceFilename;
          directory = pathDirname P markdownPath'
      in if layoutMode' = Flat then pathJoin P [directory, coalesce flatPrefix' [] @ sanitized]
         else pathJoin P [directory, sanitized])"

text \<open>The sweep of \<open>removeExistingTarget\<close> over the entries of the output root.\<close>

fun removeFlatFiles ::
  "'f runtime \<Rightarrow> platform \<Rightarrow> jsstring \<Rightarrow> jsstring \<Rightarrow> Dirent list \<Rightarrow> ('f, unit) io" where
  "removeFlatFiles R P outputRoot flatPrefix' [] w = Some (Inr (), w)"
| "removeFlatFiles R P outputRoot flatPrefix' (entry # entries) w =
     (if \<not> d_isFile entry then removeFlatFiles R P outputRoot flatPrefix' entries w
      else if prefix flatPrefix' (d_name entry) then
        (case fsRm R (pathJoin P [outputRoot, d_name entry]) False (w_fs w) of
           (Some e, f') \<Rightarrow> Some (Inl e, w\<lparr>w_fs := f'\<rparr>)
         | (None, f') \<Rightarrow> removeFlatFiles R P outputRoot flatPrefix' entries (w\<lparr>w_fs := f'\<rparr>))
      else removeFlatFiles R P outputRoot flatPrefix' entries w)"

definition removeExistingTarget ::
  "'f runtime \<Rightarrow> platform \<Rightarrow> jsstring \<Rightarrow> jsstring \<Rightarrow> jsstring option \<Rightarrow> jsstring option
     \<Rightarrow> ('f, unit) io" where
  "removeExistingTarget R P outputRoot markdownPath' itemFolder' flatPrefix' =
     (if truthy itemFolder' then
        (\<lambda>w. if fsAccess R (w_fs w) (the itemFolder')
              then ioFs (fsRm R (the itemFolder') True) w
              else Some (Inr (), w))
      else
        ioBind
          (\<lambda>w. if fsAccess R (w_fs w) markdownPath'
                then ioFs (fsRm R markdownPath' False) w
                else Some (Inr (), w))
          (\<lambda>_ w.
             if \<not> truthy flatPrefix' then Some (Inr (), w)
             else if \<not> fsAccess R (w_fs w) outputRoot then Some (Inr (), w)
             else
               (case fsReaddir R outputRoot (w_fs w) of
                  Inl e \<Rightarrow> Some (Inl e, w)
                | Inr entries \<Rightarrow> removeFlatFiles R P outputRoot (the flatPrefix') entries w)))"

fun convertNotesToMarkdown ::
  "(jsstring \<Rightarrow> error + jsstring) \<Rightarrow> ZoteroNote list \<Rightarrow> error + ZoteroNote list" where
  "convertNotesToMarkdown td [] = Inr []"
| "convertNotesToMarkdown td (note # notes) =
     (let html = orElse (n_noteHtml note) []
      in case (if length (trim html) > 0 then td html else Inr []) of
           Inl e \<Rightarrow> Inl e
         | Inr markdown \<Rightarrow>
             (case convertNotesToMarkdown td notes of
                Inl e \<Rightarrow> Inl e
              | Inr rest \<Rightarrow> Inr (note\<lparr>n_noteMarkdown := Some markdown\<rparr> # rest)))"

text \<open>The loop over the selected attachments; \<open>copied\<close> is \<open>copiedPdfNames\<close>.\<close>

fun copyAttachments ::
  "'f runtime \<Rightarrow> platform \<Rightarrow> ExportOptions \<Rightarrow> ZoteroItem \<Rightarrow> ItemOutputPaths \<Rightarrow>
     ZoteroAttachment list \<Rightarrow> jsstring list \<Rightarrow> ('f, jsstring list) io" where
  "copyAttachments R P options item outputPaths [] copied w = Some (Inr copied, w)"
| "copyAttachments R P options item outputPaths (attachment # rest) copied w =
     (let sourcePath = resolveAttachmentSourcePath P (storagePath options) attachment
      in if \<not> truthy sourcePath then
           (case appendWarning options
                   (lit ''Item '' @ i_key item @ lit '': unsupported attachment path format for '' @
                      coalesce (a_filename attachment) (a_key attachment)) w of
              None \<Rightarrow> None
            | Some (Inl e, w') \<Rightarrow> Some (Inl e, w')
            | Some (Inr u, w') \<Rightarrow> copyAttachments R P options item outputPaths rest copied w')
         else if \<not> fsAccess R (w_fs w) (the sourcePath) then
           (case appendWarning options
                   (lit ''Item '' @ i_key item @ lit '': attachment file not found at '' @
                      the sourcePath) w of
              None \<Rightarrow> None
            | Some (Inl e, w') \<Rightarrow> Some (Inl e, w')
            | Some (Inr u, w') \<Rightarrow> copyAttachments R P options item outputPaths rest copied w')
         else
           (let desiredTargetPath =
                  getTargetPdfPath P (markdownPath outputPaths) (layoutMode options)
                    (flatPrefix outputPaths)
                    (coalesce (a_filename attachment) (a_key attachment @ lit ''.pdf''))
            in case makeUniqueFilePath P (fsAccess R (w_fs w)) desiredTargetPath of
                 None \<Rightarrow> None
               | Some targetPath \<Rightarrow>
                   (case fsCopyFile R (the sourcePath) targetPath (w_fs w) of
                      (Some e, f') \<Rightarrow> Some (Inl e, w\<lparr>w_fs := f'\<rparr>)
                    | (None, f') \<Rightarrow>
                        copyAttachments R P options item outputPaths rest
                          (copied @ [pathBasename P targetPath]) (w\<lparr>w_fs := f'\<rparr>))))"

text \<open>What one iteration of the batch loop tells the loop to do next.\<close>

datatype control = Continue | Break

definition existingTargetOf :: "ItemOutputPaths \<Rightarrow> jsstring" where
  "existingTargetOf outputPaths = coalesce (itemFolder outputPaths) (markdownPath outputPaths)"

text \<open>
  The \<open>try\<close> block from \<open>fs.mkdir\<close> of the item's directory to the last log line, which
  comes after \<open>result.exported += 1\<close>.
\<close>

definition writeItem ::
  "'f runtime \<Rightarrow> platform \<Rightarrow> ExportOptions \<Rightarrow> ZoteroItem \<Rightarrow> ItemOutputPaths \<Rightarrow> ('f, control) io" where
  "writeItem R P options item outputPaths =
     ioBind (ioFs (fsMkdir R (pathDirname P (markdownPath outputPaths)))) (\<lambda>_.
     (let pdfAttachments = filter a_isPdf (i_attachments item)
      in ioBind (if length pdfAttachments > 1
                 then ioPure (selectPdfAttachments options item pdfAttachments)
                 else ioPure (Inr pdfAttachments)) (\<lambda>selectedPdfs.
         (let selectedPdfIds = map a_itemId selectedPdfs
          in ioBind (copyAttachments R P options item outputPaths selectedPdfs []) (\<lambda>copiedPdfNames.
             (let filteredHighlights =
                    [annotation \<leftarrow> i_annotations item. h_parentItemId annotation \<in> set selectedPdfIds];
                  filteredNotes =
                    [note \<leftarrow> i_notes item.
                       n_parentItemId note = i_itemId item \<or> n_parentItemId note \<in> set selectedPdfIds]
              in ioBind (ioPure (convertNotesToMarkdown (turndown R) filteredNotes)) (\<lambda>noteMarkdown.
                 ioBind (ioPure (buildMarkdown (dumpYaml R)
                           \<lparr> p_item = item, p_selectedAttachments = selectedPdfs,
                             p_exportedAttachmentFilenames = copiedPdfNames,
                             p_highlights = filteredHighlights, p_notes = noteMarkdown,
                             p_exportedAt = coalesce (now options) (newDate R) \<rparr>)) (\<lambda>markdown.
                 ioBind (ioFs (fsWriteFile R (markdownPath outputPaths) markdown)) (\<lambda>_.
                 ioBind (\<lambda>w.
                   appendLine options
                     (lit ''Exported '' @ i_key item @ lit '' -> '' @ markdownPath outputPaths)
                     (w\<lparr>w_result := (w_result w)\<lparr>exported := exported (w_result w) + 1\<rparr>\<rparr>)) (\<lambda>_.
                 ioPure (Inr Continue)))))))))))"

text \<open>The whole \<open>try\<close> block for one summary.\<close>

definition tryExportItem ::
  "'f runtime \<Rightarrow> platform \<Rightarrow> Database \<Rightarrow> ExportOptions \<Rightarrow> ZoteroItemSummary \<Rightarrow> ('f, control) io" where
  "tryExportItem R P db options summary =
     ioBind (ioPure (getItemExportData db (s_itemId summary))) (\<lambda>item.
     (let slug = buildItemSlug P item;
          outputPaths = resolveItemOutputPaths P (outputRootPath options) (layoutMode options) slug
                          (i_year item);
          existingTarget = existingTargetOf outputPaths
      in (\<lambda>w.
           if fsAccess R (w_fs w) existingTarget then
             ioBind (ioPure (resolveConflict options existingTarget item)) (\<lambda>decision w'.
               if decision = Cancel then
                 Some (Inr Break, w'\<lparr>w_result := (w_result w')\<lparr>cancelled := True\<rparr>\<rparr>)
               else if decision = Skip then
                 Some (Inr Continue,
                   w'\<lparr>w_result := (w_result w')\<lparr>skipped := skipped (w_result w') + 1\<rparr>\<rparr>)
               else
                 ioBind (removeExistingTarget R P (outputRootPath options) (markdownPath outputPaths)
                           (itemFolder outputPaths) (flatPrefix outputPaths))
                   (\<lambda>_. writeItem R P options item outputPaths) w') w
           else writeItem R P options item outputPaths w)))"

text \<open>
  One iteration: the \<open>try\<close> block and its \<open>catch\<close>. The handler counts the failure and then
  calls the output channel; what the channel throws there is thrown by the iteration.
\<close>

definition processItem ::
  "'f runtime \<Rightarrow> platform \<Rightarrow> Database \<Rightarrow> ExportOptions \<Rightarrow> ZoteroItemSummary \<Rightarrow> ('f, control) io" where
  "processItem R P db options summary w =
     (case tryExportItem R P db options summary w of
        None \<Rightarrow> None
      | Some (Inr c, w') \<Rightarrow> Some (Inr c, w')
      | Some (Inl (Error message), w') \<Rightarrow>
          ioBind
            (appendLine options
               (lit ''[error] Failed exporting item '' @ s_key summary @ lit '' ('' @
                  s_title summary @ lit ''): '' @ message))
            (\<lambda>_. ioPure (Inr Continue))
            (w'\<lparr>w_result := (w_result w')\<lparr>failed := failed (w_result w') + 1\<rparr>\<rparr>))"

text \<open>The \<open>for\<close> loop over the summaries: an iteration that throws ends the loop with its error.\<close>

fun exportLoop ::
  "'f runtime \<Rightarrow> platform \<Rightarrow> Database \<Rightarrow> ExportOptions \<Rightarrow> ZoteroItemSummary list \<Rightarrow>
     ('f, unit) io" where
  "exportLoop R P db options [] w = Some (Inr (), w)"
| "exportLoop R P db options (summary # rest) w =
     (case processItem R P db options summary w of
        None \<Rightarrow> None
      | Some (Inl e, w') \<Rightarrow> Some (Inl e, w')
      | Some (Inr Break, w') \<Rightarrow> Some (Inr (), w')
      | Some (Inr Continue, w') \<Rightarrow> exportLoop R P db options rest w')"

text \<open>
  \<open>exportItems\<close> on a file system \<open>f\<close> and an output channel holding \<open>log\<close>: the result,
  or the error it rejects with (that of the first \<open>fs.mkdir\<close>, or one thrown by an
  iteration of the loop), with the file system and the log it leaves.
\<close>

definition emptyResult :: ExportResult where
  "emptyResult = \<lparr> exported = 0, skipped = 0, failed = 0, cancelled = False, warnings = [] \<rparr>"

definition exportItems ::
  "'f runtime \<Rightarrow> platform \<Rightarrow> Database \<Rightarrow> ZoteroItemSummary list \<Rightarrow> ExportOptions \<Rightarrow>
     'f \<Rightarrow> jsstring list \<Rightarrow> ((error + ExportResult) \<times> 'f \<times> jsstring list) option" where
  "exportItems R P db itemSummaries options f log =
     (case fsMkdir R (outputRootPath options) f of
        (Some e, f') \<Rightarrow> Some (Inl e, f', log)
      | (None, f') \<Rightarrow>
          (case exportLoop R P db options itemSummaries
                  \<lparr> w_fs = f', w_result = emptyResult, w_log = log \<rparr> of
             None \<Rightarrow> None
           | Some (Inl e, w) \<Rightarrow> Some (Inl e, w_fs w, w_log w)
           | Some (Inr u, w) \<Rightarrow> Some (Inr (w_result w), w_fs w, w_log w)))"

text \<open>
  The output paths of an item under the options, and the target whose existence starts the
  conflict check: \<open>outputPaths\<close> and \<open>existingTarget\<close> of the \<open>try\<close> block.
\<close>

definition itemPaths :: "platform \<Rightarrow> ExportOptions \<Rightarrow> ZoteroItem \<Rightarrow> ItemOutputPaths" where
  "itemPaths P options item =
     resolveItemOutputPaths P (outputRootPath options) (layoutMode options) (buildItemSlug P item)
       (i_year item)"

definition itemTarget :: "platform \<Rightarrow> ExportOptions \<Rightarrow> ZoteroItem \<Rightarrow> jsstring" where
  "itemTarget P options item = existingTargetOf (itemPaths P options item)"

text \<open>The counters of the result under construction and its cancelled flag.\<close>

definition counts :: "'f world \<Rightarrow> nat \<times> nat \<times> nat \<times> bool" where
  "counts w =
     (exported (w_result w), skipped (w_result w), failed (w_result w), cancelled (w_result w))"

text \<open>An output channel whose \<open>appendLine\<close> throws on no message, whatever it holds.\<close>

definition channelNeverThrows :: "ExportOptions \<Rightarrow> bool" where
  "channelNeverThrows options \<longleftrightarrow>
     (\<forall>message lines. fst (outputChannel options message lines) = None)"


subsection \<open>A sample run\<close>

text \<open>
  A file system that is the list of the paths that exist, external libraries that return
  their input, and options that answer every conflict with one decision, keep every PDF
  and log to a channel that appends the line to the lines it holds.
\<close>

definition sampleRuntime :: "jsstring list runtime" where
  "sampleRuntime =
     \<lparr> fsAccess = (\<lambda>f p. p \<in> set f),
       fsMkdir = (\<lambda>p f. (None, p # f)),
       fsRm = (\<lambda>p recursive f.
                 (None, [q \<leftarrow> f. \<not> (q = p \<or> (recursive \<and> prefix (p @ [47]) q))])),
       fsReaddir = (\<lambda>p f.
                 Inr [\<lparr> d_name = drop (length p + 1) q, d_isFile = True \<rparr>.
                        q \<leftarrow> f, prefix (p @ [47]) q]),
       fsCopyFile = (\<lambda>src dst f.
                 if src \<in> set f then (None, dst # f) else (Some (Error (lit ''ENOENT'')), f)),
       fsWriteFile = (\<lambda>p content f. (None, p # f)),
       turndown = (\<lambda>html. Inr html),
       dumpYaml = sampleYaml,
       newDate = Some 0 \<rparr>"

definition sampleOptions :: "ConflictDecision \<Rightarrow> ExportOptions" where
  "sampleOptions decision =
     \<lparr> outputRootPath = lit ''/out'', layoutMode = ItemFolder, storagePath = lit ''/zotero/storage'',
       outputChannel = (\<lambda>message lines. (None, lines @ [message])),
       resolveConflict = (\<lambda>existingTarget item. Inr decision),
       selectPdfAttachments = (\<lambda>item pdfAttachments. Inr pdfAttachments),
       now = None \<rparr>"



definition sampleSummary :: "int \<Rightarrow> ZoteroItemSummary" where
  "sampleSummary itemId =
     \<lparr> s_itemId = itemId, s_key = lit ''ITEM'', s_libraryId = 1, s_libraryName = lit ''My Library'',
       s_itemType = lit ''journalArticle'', s_title = lit ''Untitled'', s_creatorsText = [],
       s_date = None, s_year = None, s_dateAdded = None, s_dateModified = None, s_doi = None,
       s_tagsText = None, s_pdfCount = 0, s_hasPdf = False, s_noteCount = 0 \<rparr>"

definition sampleWorld :: "jsstring list \<Rightarrow> jsstring list world" where
  "sampleWorld f = \<lparr> w_fs = f, w_result = emptyResult, w_log = [] \<rparr>"

text \<open>The folder of the test database's first item under \<open>sampleOptions\<close>.\<close>

definition sampleFolder :: jsstring where
  "sampleFolder = lit ''/out/ITEM1KEY-Distributed-Cognition''"





section \<open>Properties of the naming engine\<close>

lemma set_replaceRuns:
  "set (replaceRuns X r s) \<subseteq> set r \<union> {c \<in> set s. \<not> X c}"
  by (induction X r s rule: replaceRuns.induct) auto

lemma set_trim: "set (trim s) \<subseteq> set s"
  unfolding trim_def by (auto dest!: set_dropWhileD)

lemma set_stripHyphenDot: "set (stripHyphenDot s) \<subseteq> set s"
  unfolding stripHyphenDot_def by (auto dest!: set_dropWhileD)

lemma sanitizeSegment_chars:
  assumes "c \<in> set (sanitizeSegment P input)"
  shows "isAlnum c \<or> c = 46 \<or> c = 95 \<or> c = 45"
proof -
  let ?f = "filter isSegmentChar (normalizeNFKD P input)"
  let ?w = "replaceRuns isWhiteSpace [45] (trim ?f)"
  from assms have "c \<in> set (replaceRuns (\<lambda>c. c = 45) [45] ?w)"
    unfolding sanitizeSegment_def using set_stripHyphenDot by (auto dest!: in_set_takeD)
  then have "c = 45 \<or> c \<in> set ?w"
    using set_replaceRuns [of "\<lambda>c. c = 45" "[45]" ?w] by auto
  moreover have "c \<in> set ?w \<Longrightarrow> c = 45 \<or> (c \<in> set ?f \<and> \<not> isWhiteSpace c)"
    using set_replaceRuns [of isWhiteSpace "[45]" "trim ?f"] set_trim [of ?f] by auto
  ultimately show ?thesis
    by (auto simp: isSegmentChar_def)
qed

lemma sanitizeSegment_length: "length (sanitizeSegment P input) \<le> 80"
  by (simp add: sanitizeSegment_def MAX_SLUG_LENGTH_def)

lemma stripHyphenDot_hd:
  "stripHyphenDot s \<noteq> [] \<Longrightarrow> \<not> isHyphenOrDot (hd (stripHyphenDot s))"
proof -
  assume ne: "stripHyphenDot s \<noteq> []"
  let ?d = "dropWhile isHyphenOrDot s"
  have d: "?d \<noteq> []"
  proof
    assume "?d = []"
    then have "stripHyphenDot s = []" by (simp only: stripHyphenDot_def rev.simps dropWhile.simps)
    with ne show False by simp
  qed
  then have h: "\<not> isHyphenOrDot (hd ?d)" by (simp add: hd_dropWhile)
  obtain x xs where dx: "?d = x # xs" using d by (cases ?d) auto
  with h have nx: "\<not> isHyphenOrDot x" by simp
  have "rev ?d = rev xs @ [x]" by (simp add: dx)
  then have "dropWhile isHyphenOrDot (rev ?d) = dropWhile isHyphenOrDot (rev xs) @ [x]"
    using nx by (simp add: dropWhile_append)
  then have "stripHyphenDot s = x # rev (dropWhile isHyphenOrDot (rev xs))"
    by (simp add: stripHyphenDot_def)
  with nx show ?thesis by simp
qed

lemma sanitizeSegment_no_leading:
  "sanitizeSegment P input \<noteq> [] \<Longrightarrow> \<not> isHyphenOrDot (hd (sanitizeSegment P input))"
  unfolding sanitizeSegment_def MAX_SLUG_LENGTH_def
  using stripHyphenDot_hd by auto

lemmas naming_eval = lit_def sanitizeSegment_def trim_def stripHyphenDot_def isWhiteSpace_def
  isSegmentChar_def isAlnum_def isHyphenOrDot_def MAX_SLUG_LENGTH_def orElse_def

text \<open>
  Claim C4 (the part the code breaks). \<open>sanitizeSegment\<close> strips leading and trailing hyphens
  and dots before it truncates to 80 code units, so a hyphen or dot at position 80 of a longer
  result becomes the last character: on \<open>longTitle\<close>, which NFKD normalisation leaves as it
  is, the result is its first 80 characters and ends with a hyphen.
\<close>

theorem sanitizeSegment_trailing_hyphen:
  "normalizeNFKD P longTitle = longTitle \<Longrightarrow>
   sanitizeSegment P longTitle = take 80 longTitle \<and>
   length (sanitizeSegment P longTitle) = 80 \<and>
   last (sanitizeSegment P longTitle) = 45"
  by (simp add: naming_eval longTitle_def)

theorem sanitizeSegment_trailing_hyphen_witness:
  "normalizeNFKD posix longTitle = longTitle \<and> last (sanitizeSegment posix longTitle) = 45"
proof -
  have h: "normalizeNFKD posix longTitle = longTitle" by (simp add: posix_def)
  from sanitizeSegment_trailing_hyphen [OF h] have "last (sanitizeSegment posix longTitle) = 45"
    by (rule conjunct2 [THEN conjunct2])
  with h show ?thesis by (rule conjI)
qed

lemma buildItemSlug_eq:
  "buildItemSlug P item =
     i_key item @ lit ''-'' @ orElse (sanitizeSegment P (i_title item)) (lit ''untitled'')"
proof -
  have "length (orElse (sanitizeSegment P (i_title item)) (lit ''untitled'')) \<le> 80"
    using sanitizeSegment_length [of P "i_title item"] by (simp add: orElse_def lit_def)
  then show ?thesis
    by (simp add: buildItemSlug_def Let_def MAX_SLUG_LENGTH_def lit_def)
qed

text \<open>
  Claim C8. \<open>buildItemSlug\<close> returns the key, a hyphen and the sanitized title (\<open>untitled\<close>
  when that is empty); the final \<open>slice\<close> never cuts, and the slug is at most 80 plus the key
  length plus one code units long. For key \<open>ABCD1234\<close> and title \<open>My: Title Here\<close> (ASCII,
  unchanged by NFKD normalisation) the slug is \<open>ABCD1234-My-Title-Here\<close>: it starts with
  \<open>ABCD1234-\<close> and contains \<open>My-Title-Here\<close>.
\<close>

theorem buildItemSlug_shape:
  "buildItemSlug P item =
     i_key item @ lit ''-'' @
       (if sanitizeSegment P (i_title item) = [] then lit ''untitled''
        else sanitizeSegment P (i_title item)) \<and>
   length (buildItemSlug P item) \<le> 80 + length (i_key item) + 1 \<and>
   (i_key item = lit ''ABCD1234'' \<and> i_title item = lit ''My: Title Here'' \<and>
    normalizeNFKD P (lit ''My: Title Here'') = lit ''My: Title Here'' \<longrightarrow>
      buildItemSlug P item = lit ''ABCD1234-My-Title-Here'' \<and>
      prefix (lit ''ABCD1234-'') (buildItemSlug P item) \<and>
      sublist (lit ''My-Title-Here'') (buildItemSlug P item))"
proof (intro conjI impI)
  show eq: "buildItemSlug P item =
     i_key item @ lit ''-'' @
       (if sanitizeSegment P (i_title item) = [] then lit ''untitled''
        else sanitizeSegment P (i_title item))"
    by (simp add: buildItemSlug_eq orElse_def)
  show "length (buildItemSlug P item) \<le> 80 + length (i_key item) + 1"
    by (simp add: buildItemSlug_def Let_def MAX_SLUG_LENGTH_def)
next
  assume a: "i_key item = lit ''ABCD1234'' \<and> i_title item = lit ''My: Title Here'' \<and>
    normalizeNFKD P (lit ''My: Title Here'') = lit ''My: Title Here''"
  then have s: "sanitizeSegment P (i_title item) = lit ''My-Title-Here''"
    by (simp add: naming_eval)
  show v: "buildItemSlug P item = lit ''ABCD1234-My-Title-Here''"
    using a s by (simp add: buildItemSlug_eq orElse_def lit_def)
  show "prefix (lit ''ABCD1234-'') (buildItemSlug P item)"
    unfolding v by (simp add: lit_def)
  have "buildItemSlug P item = lit ''ABCD1234-'' @ lit ''My-Title-Here''"
    unfolding v by (simp add: lit_def)
  then show "sublist (lit ''My-Title-Here'') (buildItemSlug P item)"
    by simp
qed

theorem buildItemSlug_shape_witness:
  "buildItemSlug posix sampleItem = lit ''ABCD1234-My-Title-Here'' \<and>
   prefix (lit ''ABCD1234-'') (buildItemSlug posix sampleItem) \<and>
   sublist (lit ''My-Title-Here'') (buildItemSlug posix sampleItem)"
proof -
  have h: "i_key sampleItem = lit ''ABCD1234'' \<and> i_title sampleItem = lit ''My: Title Here'' \<and>
    normalizeNFKD posix (lit ''My: Title Here'') = lit ''My: Title Here''"
    by (simp add: sampleItem_def posix_def)
  from buildItemSlug_shape [of posix sampleItem] have
    "i_key sampleItem = lit ''ABCD1234'' \<and> i_title sampleItem = lit ''My: Title Here'' \<and>
    normalizeNFKD posix (lit ''My: Title Here'') = lit ''My: Title Here'' \<longrightarrow>
      buildItemSlug posix sampleItem = lit ''ABCD1234-My-Title-Here'' \<and>
      prefix (lit ''ABCD1234-'') (buildItemSlug posix sampleItem) \<and>
      sublist (lit ''My-Title-Here'') (buildItemSlug posix sampleItem)"
    by (rule conjunct2 [THEN conjunct2])
  from this h show ?thesis by (rule mp)
qed

text \<open>
  Claim C9. When the filtered highlight list and the filtered note list are both empty,
  \<open>buildMarkdown\<close> returns a document whenever the YAML header can be written, and the
  document contains the literal texts \<open>## Highlights\n\nNone\<close> and \<open>## Notes\n\nNone\<close>.
\<close>

theorem buildMarkdown_placeholders:
  assumes "yamlDump payload = Inr yamlContent"
    and "p_highlights payload = []" and "p_notes payload = []"
  shows "\<exists>doc. buildMarkdown yamlDump payload = Inr doc \<and>
           sublist (lit ''## Highlights\<newline>\<newline>None'') doc \<and>
           sublist (lit ''## Notes\<newline>\<newline>None'') doc"
proof -
  let ?title = "orElse (i_title (p_item payload)) (lit ''Untitled'')"
  let ?doc = "lit ''---\<newline>'' @ yamlContent @ lit ''---\<newline>\<newline># '' @ ?title @
                   lit ''\<newline>\<newline>## Highlights\<newline>\<newline>'' @
                   lit ''None\<newline>'' @
                   lit ''\<newline>## Notes\<newline>\<newline>'' @
                   lit ''None\<newline>''"
  have d: "buildMarkdown yamlDump payload = Inr ?doc"
    using assms by (simp add: buildMarkdown_def Let_def renderHighlights_def renderNotes_def)
  have "?doc = (lit ''---\<newline>'' @ yamlContent @ lit ''---\<newline>\<newline># '' @ ?title @
                   lit ''\<newline>\<newline>'') @ lit ''## Highlights\<newline>\<newline>None'' @
                 (lit ''\<newline>\<newline>## Notes\<newline>\<newline>None\<newline>'')"
    by (simp add: lit_def)
  then have h: "sublist (lit ''## Highlights\<newline>\<newline>None'') ?doc"
    unfolding sublist_def by blast
  have "?doc = (lit ''---\<newline>'' @ yamlContent @ lit ''---\<newline>\<newline># '' @ ?title @
                   lit ''\<newline>\<newline>## Highlights\<newline>\<newline>None\<newline>\<newline>'')
                 @ lit ''## Notes\<newline>\<newline>None'' @ lit ''\<newline>''"
    by (simp add: lit_def)
  then have n: "sublist (lit ''## Notes\<newline>\<newline>None'') ?doc"
    unfolding sublist_def by blast
  from d h n show ?thesis by blast
qed

theorem buildMarkdown_placeholders_witness:
  "\<exists>doc. buildMarkdown sampleYaml samplePayload = Inr doc \<and>
           sublist (lit ''## Highlights\<newline>\<newline>None'') doc \<and>
           sublist (lit ''## Notes\<newline>\<newline>None'') doc"
proof (rule buildMarkdown_placeholders)
  show "sampleYaml samplePayload = Inr (lit ''zotero_key: '' @ i_key sampleItem @ lit ''\<newline>'')"
    by (simp add: sampleYaml_def samplePayload_def)
  show "p_highlights samplePayload = []" by (simp add: samplePayload_def)
  show "p_notes samplePayload = []" by (simp add: samplePayload_def)
qed

lemma set_note_group:
  assumes "itemID \<in> set (map items_itemID (db_items db))"
  shows "set [itemNotes_itemID n. nt \<leftarrow> note_targets db, fst nt = itemID,
                   n \<leftarrow> db_itemNotes db, itemNotes_parentItemID n = Some (snd nt)]
         = notesOfItem db itemID"
  using assms unfolding note_targets_def notesOfItem_def
  by (auto simp: image_iff) (force+)?

lemma note_values_card:
  assumes "itemID \<in> set (map items_itemID (db_items db))"
  shows "coalesce (note_values db itemID) 0 = int (card (notesOfItem db itemID))"
proof -
  let ?grp = "[itemNotes_itemID n. nt \<leftarrow> note_targets db, fst nt = itemID,
                   n \<leftarrow> db_itemNotes db, itemNotes_parentItemID n = Some (snd nt)]"
  have s: "set ?grp = notesOfItem db itemID" by (rule set_note_group [OF assms])
  have "coalesce (note_values db itemID) 0 = int (length (remdups ?grp))"
    by (cases "?grp = []") (simp_all add: note_values_def coalesce_def Let_def)
  also have "\<dots> = int (card (set ?grp))" by (simp add: length_remdups_card_conv)
  finally show ?thesis by (simp only: s)
qed

lemmas db_eval = testDb_def summaryRowOf_def summaryRow_def note_values_def note_targets_def
  attachment_values_def coalesce_def mapSummary_def Let_def sqlIsPdf_def toLowerCase_def lit_def
  sublist_code suffix_to_prefix

lemmas loader_eval = getItemExportData_def baseRows_def leftJoin_def getAttachmentsForItem_def
  attachmentRows_def titleValues_def mapAttachment_def deriveAttachmentFilename_def truthy_def
  orElse_def lastSegment_def isSlash_def getNotesForItemAndAttachments_def
  getAnnotationsForAttachments_def parentIn_def getFieldMap_def fieldRows_def

text \<open>
  Claim C5. For every row the summary query returns for an item of the \<open>items\<close> table, the
  summary's \<open>noteCount\<close> is the number of distinct identifiers of the notes whose parent is
  the item itself or one of its attachments.
\<close>

theorem noteCount_counts_item_and_attachment_notes:
  assumes "summaryRow db row"
  shows "s_noteCount (mapSummary row) = int (card (notesOfItem db (r_itemID row)))"
proof -
  from assms have i: "r_itemID row \<in> set (map items_itemID (db_items db))"
    and n: "r_noteCount row = Some (coalesce (note_values db (r_itemID row)) 0)"
    by (simp_all add: summaryRow_def)
  have "s_noteCount (mapSummary row) = coalesce (note_values db (r_itemID row)) 0"
    using n by (simp add: mapSummary_def Let_def coalesce_def)
  with note_values_card [OF i] show ?thesis by simp
qed

text \<open>
  The item of the repository's test database has one note on the item and one on its
  attachment: its summary reports \<open>noteCount = 2\<close>.
\<close>

theorem noteCount_counts_item_and_attachment_notes_witness:
  "summaryRow testDb (summaryRowOf testDb 1) \<and>
   s_noteCount (mapSummary (summaryRowOf testDb 1)) = 2 \<and>
   card (notesOfItem testDb 1) = 2"
proof -
  have r: "summaryRow testDb (summaryRowOf testDb 1)"
    by (simp add: db_eval)
  have v: "s_noteCount (mapSummary (summaryRowOf testDb 1)) = 2"
    by (simp add: db_eval)
  have "r_itemID (summaryRowOf testDb 1) = 1"
    by (simp add: summaryRowOf_def)
  with noteCount_counts_item_and_attachment_notes [OF r] v
  have "card (notesOfItem testDb 1) = 2" by simp
  with r v show ?thesis by simp
qed

text \<open>
  Claim C10 (the code breaks it). For the item of \<open>webLinkDb\<close> the summary query counts no
  PDF (\<open>pdfCount = 0\<close>, \<open>hasPdf\<close> false): the attachment's content type is \<open>text/html\<close> and
  it has no path. The aggregate loader derives the file name \<open>ATTACH1.pdf\<close> for the same
  attachment from its key, tests that name, and flags the attachment as a PDF.
\<close>

theorem pdfCount_disagrees_with_isPdf:
  "summaryRow webLinkDb (summaryRowOf webLinkDb 1) \<and>
   s_pdfCount (mapSummary (summaryRowOf webLinkDb 1)) = 0 \<and>
   \<not> s_hasPdf (mapSummary (summaryRowOf webLinkDb 1)) \<and>
   (\<exists>item. getItemExportData webLinkDb 1 = Inr item \<and>
      map a_filename (i_attachments item) = [Some (lit ''ATTACH1.pdf'')] \<and>
      length (filter a_isPdf (i_attachments item)) = 1)"
proof (intro conjI)
  show "summaryRow webLinkDb (summaryRowOf webLinkDb 1)"
    by (simp add: db_eval webLinkDb_def)
  show "s_pdfCount (mapSummary (summaryRowOf webLinkDb 1)) = 0"
    by (simp add: db_eval webLinkDb_def)
  show "\<not> s_hasPdf (mapSummary (summaryRowOf webLinkDb 1))"
    by (simp add: db_eval webLinkDb_def)
  show "\<exists>item. getItemExportData webLinkDb 1 = Inr item \<and>
      map a_filename (i_attachments item) = [Some (lit ''ATTACH1.pdf'')] \<and>
      length (filter a_isPdf (i_attachments item)) = 1"
    by (simp add: loader_eval db_eval webLinkDb_def)
qed

lemma probeSuffix_least:
  assumes "s \<le> k" and "\<not> pathExists (candidate k)"
    and "\<forall>j. s \<le> j \<and> j < k \<longrightarrow> pathExists (candidate j)"
  shows "probeSuffix candidate pathExists s = Some (candidate k)"
  using assms
proof (induction "k - s" arbitrary: s)
  case 0
  then have "s = k" by simp
  with "0.prems" show ?case by (subst probeSuffix.simps) simp
next
  case (Suc d)
  then have lt: "s < k" by simp
  with Suc.prems have ex: "pathExists (candidate s)" by simp
  have "probeSuffix candidate pathExists (s + 1) = Some (candidate k)"
  proof (rule Suc.hyps(1))
    show "d = k - (s + 1)" using Suc.hyps(2) by simp
    show "s + 1 \<le> k" using lt by simp
    show "\<not> pathExists (candidate k)" by (rule Suc.prems(2))
    show "\<forall>j. s + 1 \<le> j \<and> j < k \<longrightarrow> pathExists (candidate j)"
      using Suc.prems(3) by simp
  qed
  with ex show ?case by (subst probeSuffix.simps) simp
qed

lemma showNat_2: "showNat 2 = lit ''2''"
  by (subst showNat.simps) (simp add: lit_def)

lemma showNat_3: "showNat 3 = lit ''3''"
  by (subst showNat.simps) (simp add: lit_def)

text \<open>
  Claim C7. \<open>makeUniqueFilePath\<close> returns its argument when nothing exists at that path.
  When the path exists it returns the candidate \<open><dir>/<name>-<k><ext>\<close> with the least
  \<open>k \<ge> 2\<close> at which nothing exists. For \<open>doc.pdf\<close> the candidates 2 and 3 are
  \<open>doc-2.pdf\<close> and \<open>doc-3.pdf\<close> in the same directory.
\<close>

theorem makeUniqueFilePath_first_free:
  "(\<not> pathExists targetPath \<longrightarrow> makeUniqueFilePath P pathExists targetPath = Some targetPath) \<and>
   (pathExists targetPath \<and> 2 \<le> k \<and> \<not> pathExists (uniqueCandidate P targetPath k) \<and>
    (\<forall>j. 2 \<le> j \<and> j < k \<longrightarrow> pathExists (uniqueCandidate P targetPath j)) \<longrightarrow>
      makeUniqueFilePath P pathExists targetPath = Some (uniqueCandidate P targetPath k)) \<and>
   (name (pathParse P targetPath) = lit ''doc'' \<and> ext (pathParse P targetPath) = lit ''.pdf'' \<longrightarrow>
      uniqueCandidate P targetPath 2 = pathJoin P [dir (pathParse P targetPath), lit ''doc-2.pdf''] \<and>
      uniqueCandidate P targetPath 3 = pathJoin P [dir (pathParse P targetPath), lit ''doc-3.pdf''])"
proof (intro conjI impI)
  assume "\<not> pathExists targetPath"
  then show "makeUniqueFilePath P pathExists targetPath = Some targetPath"
    by (simp add: makeUniqueFilePath_def)
next
  assume a: "pathExists targetPath \<and> 2 \<le> k \<and> \<not> pathExists (uniqueCandidate P targetPath k) \<and>
    (\<forall>j. 2 \<le> j \<and> j < k \<longrightarrow> pathExists (uniqueCandidate P targetPath j))"
  then have "probeSuffix (uniqueCandidate P targetPath) pathExists 2
             = Some (uniqueCandidate P targetPath k)"
    by (intro probeSuffix_least) simp_all
  with a show "makeUniqueFilePath P pathExists targetPath = Some (uniqueCandidate P targetPath k)"
    by (simp add: makeUniqueFilePath_def)
next
  assume "name (pathParse P targetPath) = lit ''doc'' \<and> ext (pathParse P targetPath) = lit ''.pdf''"
  then show "uniqueCandidate P targetPath 2 = pathJoin P [dir (pathParse P targetPath), lit ''doc-2.pdf'']"
    and "uniqueCandidate P targetPath 3 = pathJoin P [dir (pathParse P targetPath), lit ''doc-3.pdf'']"
    by (simp_all add: uniqueCandidate_def Let_def showNat_2 showNat_3) (simp_all add: lit_def)
qed

lemmas posix_eval = posix_def posixParse_def posixExt_def afterLast_def beforeLast_def Let_def

lemma posix_candidate_2: "uniqueCandidate posix (lit ''/out/doc.pdf'') 2 = lit ''/out/doc-2.pdf''"
  by (simp add: uniqueCandidate_def posix_eval showNat_2) (simp add: lit_def)

lemma posix_candidate_3: "uniqueCandidate posix (lit ''/out/doc.pdf'') 3 = lit ''/out/doc-3.pdf''"
  by (simp add: uniqueCandidate_def posix_eval showNat_3) (simp add: lit_def)

text \<open>
  On a POSIX system: \<open>/out/doc.pdf\<close> comes back unchanged from an empty directory, as
  \<open>/out/doc-2.pdf\<close> when \<open>/out/doc.pdf\<close> exists, and as \<open>/out/doc-3.pdf\<close> when
  \<open>/out/doc-2.pdf\<close> exists too.
\<close>

theorem makeUniqueFilePath_first_free_witness:
  "makeUniqueFilePath posix (\<lambda>p. p \<in> set []) (lit ''/out/doc.pdf'') = Some (lit ''/out/doc.pdf'') \<and>
   makeUniqueFilePath posix (\<lambda>p. p \<in> set [lit ''/out/doc.pdf'']) (lit ''/out/doc.pdf'')
     = Some (lit ''/out/doc-2.pdf'') \<and>
   makeUniqueFilePath posix (\<lambda>p. p \<in> set [lit ''/out/doc.pdf'', lit ''/out/doc-2.pdf''])
     (lit ''/out/doc.pdf'') = Some (lit ''/out/doc-3.pdf'')"
proof (intro conjI)
  let ?t = "lit ''/out/doc.pdf''"
  show "makeUniqueFilePath posix (\<lambda>p. p \<in> set []) ?t = Some ?t"
    using makeUniqueFilePath_first_free [of "\<lambda>p. p \<in> set []" ?t posix 2] by simp
  let ?e1 = "\<lambda>p. p \<in> set [?t]"
  have "?e1 ?t \<and> (2::nat) \<le> 2 \<and> \<not> ?e1 (uniqueCandidate posix ?t 2) \<and>
        (\<forall>j. 2 \<le> j \<and> j < (2::nat) \<longrightarrow> ?e1 (uniqueCandidate posix ?t j))"
  proof (intro conjI allI impI)
    show "?e1 ?t" by simp
    show "(2::nat) \<le> 2" by simp
    show "\<not> ?e1 (uniqueCandidate posix ?t 2)"
      by (simp add: posix_candidate_2) (simp add: lit_def)
    fix j :: nat assume "2 \<le> j \<and> j < 2"
    then have False by arith
    then show "?e1 (uniqueCandidate posix ?t j)" ..
  qed
  with makeUniqueFilePath_first_free [of ?e1 ?t posix 2]
  have "makeUniqueFilePath posix ?e1 ?t = Some (uniqueCandidate posix ?t 2)" by blast
  then show "makeUniqueFilePath posix ?e1 ?t = Some (lit ''/out/doc-2.pdf'')"
    by (simp only: posix_candidate_2)
  let ?e2 = "\<lambda>p. p \<in> set [?t, lit ''/out/doc-2.pdf'']"
  have two: "\<And>j::nat. 2 \<le> j \<and> j < 3 \<Longrightarrow> j = 2" by arith
  have "?e2 ?t \<and> (2::nat) \<le> 3 \<and> \<not> ?e2 (uniqueCandidate posix ?t 3) \<and>
        (\<forall>j. 2 \<le> j \<and> j < (3::nat) \<longrightarrow> ?e2 (uniqueCandidate posix ?t j))"
  proof (intro conjI allI impI)
    show "?e2 ?t" by simp
    show "(2::nat) \<le> 3" by simp
    show "\<not> ?e2 (uniqueCandidate posix ?t 3)"
      by (simp add: posix_candidate_3) (simp add: lit_def)
    fix j :: nat assume "2 \<le> j \<and> j < 3"
    then have "j = 2" by (rule two)
    then show "?e2 (uniqueCandidate posix ?t j)" by (simp add: posix_candidate_2)
  qed
  with makeUniqueFilePath_first_free [of ?e2 ?t posix 3]
  have "makeUniqueFilePath posix ?e2 ?t = Some (uniqueCandidate posix ?t 3)" by blast
  then show "makeUniqueFilePath posix ?e2 ?t = Some (lit ''/out/doc-3.pdf'')"
    by (simp only: posix_candidate_3)
qed

subsection \<open>Counters across one iteration of the batch loop\<close>

lemma counts_fs_update [simp]: "counts (w\<lparr>w_fs := f\<rparr>) = counts w"
  by (simp add: counts_def)

lemma counts_log_update [simp]: "counts (w\<lparr>w_log := l\<rparr>) = counts w"
  by (simp add: counts_def)

lemma appendLine_counts: "appendLine options m w = Some (r, w') \<Longrightarrow> counts w' = counts w"
  by (auto simp: appendLine_def split: prod.splits option.splits)


lemma appendLine_result:
  "appendLine options m w = Some (r, w') \<Longrightarrow> w_result w' = w_result w"
  by (auto simp: appendLine_def split: prod.splits option.splits)

lemma appendLine_throws:
  assumes "appendLine options m w = Some (Inl e, w')"
  shows "\<not> channelNeverThrows options"
proof
  assume "channelNeverThrows options"
  then have "fst (outputChannel options m (w_log w)) = None"
    by (simp add: channelNeverThrows_def)
  with assms show False
    by (cases "outputChannel options m (w_log w)") (simp add: appendLine_def)
qed


lemma appendWarning_counts:
  "appendWarning options m w = Some (r, w') \<Longrightarrow> counts w' = counts w"
  by (auto simp: appendWarning_def counts_def dest!: appendLine_result)


lemma removeFlatFiles_counts:
  "removeFlatFiles R P outputRoot fp entries w = Some (r, w') \<Longrightarrow> counts w' = counts w"
proof (induction entries arbitrary: w)
  case Nil
  then show ?case by simp
next
  case (Cons entry entries)
  then show ?case
    by (auto split: if_splits prod.splits option.splits)
qed

lemma ioFs_counts: "ioFs op w = Some (r, w') \<Longrightarrow> counts w' = counts w"
  by (auto simp: ioFs_def split: prod.splits option.splits)

lemma removeExistingTarget_counts:
  "removeExistingTarget R P outputRoot md folder fp w = Some (r, w') \<Longrightarrow> counts w' = counts w"
  unfolding removeExistingTarget_def ioBind_def
  by (auto split: if_splits option.splits prod.splits sum.splits
      dest!: ioFs_counts removeFlatFiles_counts)

lemma copyAttachments_counts:
  "copyAttachments R P options item outputPaths atts copied w = Some (r, w')
   \<Longrightarrow> counts w' = counts w"
proof (induction atts arbitrary: copied w)
  case Nil
  then show ?case by simp
next
  case (Cons a atts)
  show ?case
  proof (cases "truthy (resolveAttachmentSourcePath P (storagePath options) a)")
    case False
    let ?m = "lit ''Item '' @ i_key item @ lit '': unsupported attachment path format for '' @
                coalesce (a_filename a) (a_key a)"
    show ?thesis
    proof (cases "appendWarning options ?m w")
      case None
      with False Cons.prems show ?thesis by (simp add: Let_def)
    next
      case (Some rw)
      obtain r1 w1 where rw: "rw = (r1, w1)" by (cases rw)
      from appendWarning_counts [OF Some [unfolded rw]] have c: "counts w1 = counts w" .
      show ?thesis
      proof (cases r1)
        case (Inl e)
        with False Cons.prems Some rw c show ?thesis by (simp add: Let_def)
      next
        case (Inr u)
        with False Cons.prems Some rw
        have "copyAttachments R P options item outputPaths atts copied w1 = Some (r, w')"
          by (simp add: Let_def)
        from Cons.IH [OF this] c show ?thesis by simp
      qed
    qed
  next
    case True
    note t = True
    show ?thesis
    proof (cases "fsAccess R (w_fs w) (the (resolveAttachmentSourcePath P (storagePath options) a))")
      case False
      let ?m = "lit ''Item '' @ i_key item @ lit '': attachment file not found at '' @
                the (resolveAttachmentSourcePath P (storagePath options) a)"
      show ?thesis
      proof (cases "appendWarning options ?m w")
        case None
        with False t Cons.prems show ?thesis by (simp add: Let_def)
      next
        case (Some rw)
        obtain r1 w1 where rw: "rw = (r1, w1)" by (cases rw)
        from appendWarning_counts [OF Some [unfolded rw]] have c: "counts w1 = counts w" .
        show ?thesis
        proof (cases r1)
          case (Inl e)
          with False t Cons.prems Some rw c show ?thesis by (simp add: Let_def)
        next
          case (Inr u)
          with False t Cons.prems Some rw
          have "copyAttachments R P options item outputPaths atts copied w1 = Some (r, w')"
            by (simp add: Let_def)
          from Cons.IH [OF this] c show ?thesis by simp
        qed
      qed
    next
      case True
      with t Cons.prems Cons.IH show ?thesis
        by (auto simp: Let_def split: prod.splits option.splits)
    qed
  qed
qed

lemma ioBindE:
  assumes "ioBind m f w = Some (r, w')"
  obtains (throw) e where "m w = Some (Inl e, w')" and "r = Inl e"
    | (ok) x w1 where "m w = Some (Inr x, w1)" and "f x w1 = Some (r, w')"
  using assms unfolding ioBind_def
  by (auto split: option.splits prod.splits sum.splits)

lemma ioPure_Some: "ioPure x w = Some (r, w') \<longleftrightarrow> r = x \<and> w' = w"
  by (auto simp: ioPure_def)

text \<open>
  The \<open>try\<close> block from the item's directory on: it returns with \<open>exported\<close> one higher,
  or throws with the counters as they were, or (the channel threw on the last line) throws
  with \<open>exported\<close> one higher.
\<close>

lemma writeItem_outcome:
  assumes "writeItem R P options item outputPaths w = Some (r, w')"
  shows "(\<exists>e. r = Inl e \<and> counts w' = counts w) \<or>
         (\<exists>e. r = Inl e \<and> \<not> channelNeverThrows options \<and>
          counts w' = (exported (w_result w) + 1, skipped (w_result w), failed (w_result w),
                       cancelled (w_result w))) \<or>
         (r = Inr Continue \<and>
          counts w' = (exported (w_result w) + 1, skipped (w_result w), failed (w_result w),
                       cancelled (w_result w)))"
  using assms unfolding writeItem_def Let_def
  apply (elim ioBindE)
         apply (auto dest!: ioFs_counts copyAttachments_counts simp: ioPure_Some split: if_splits)[6]
   apply (frule appendLine_throws)
   apply (auto dest!: ioFs_counts copyAttachments_counts appendLine_counts simp: ioPure_Some
      split: if_splits)
   apply (simp_all add: counts_def)
  done

lemmas try_unfold = tryExportItem_def ioBind_def ioPure_def Let_def itemTarget_def itemPaths_def

lemma tryExportItem_load_failure:
  "getItemExportData db (s_itemId summary) = Inl e \<Longrightarrow>
   tryExportItem R P db options summary w = Some (Inl e, w)"
  by (simp add: try_unfold)

lemma tryExportItem_fresh:
  "getItemExportData db (s_itemId summary) = Inr item \<Longrightarrow>
   \<not> fsAccess R (w_fs w) (itemTarget P options item) \<Longrightarrow>
   tryExportItem R P db options summary w = writeItem R P options item (itemPaths P options item) w"
  by (simp add: try_unfold)

lemma tryExportItem_conflict_throws:
  "getItemExportData db (s_itemId summary) = Inr item \<Longrightarrow>
   fsAccess R (w_fs w) (itemTarget P options item) \<Longrightarrow>
   resolveConflict options (itemTarget P options item) item = Inl e \<Longrightarrow>
   tryExportItem R P db options summary w = Some (Inl e, w)"
  by (simp add: try_unfold)

lemma tryExportItem_cancel:
  "getItemExportData db (s_itemId summary) = Inr item \<Longrightarrow>
   fsAccess R (w_fs w) (itemTarget P options item) \<Longrightarrow>
   resolveConflict options (itemTarget P options item) item = Inr Cancel \<Longrightarrow>
   tryExportItem R P db options summary w
     = Some (Inr Break, w\<lparr>w_result := (w_result w)\<lparr>cancelled := True\<rparr>\<rparr>)"
  by (simp add: try_unfold)

lemma tryExportItem_skip:
  "getItemExportData db (s_itemId summary) = Inr item \<Longrightarrow>
   fsAccess R (w_fs w) (itemTarget P options item) \<Longrightarrow>
   resolveConflict options (itemTarget P options item) item = Inr Skip \<Longrightarrow>
   tryExportItem R P db options summary w
     = Some (Inr Continue, w\<lparr>w_result := (w_result w)\<lparr>skipped := skipped (w_result w) + 1\<rparr>\<rparr>)"
  by (simp add: try_unfold)

lemma tryExportItem_overwrite:
  "getItemExportData db (s_itemId summary) = Inr item \<Longrightarrow>
   fsAccess R (w_fs w) (itemTarget P options item) \<Longrightarrow>
   resolveConflict options (itemTarget P options item) item = Inr Overwrite \<Longrightarrow>
   tryExportItem R P db options summary w
     = ioBind (removeExistingTarget R P (outputRootPath options)
                 (markdownPath (itemPaths P options item)) (itemFolder (itemPaths P options item))
                 (flatPrefix (itemPaths P options item)))
         (\<lambda>_. writeItem R P options item (itemPaths P options item)) w"
  by (simp add: try_unfold)

lemma tryExportItem_outcome:
  assumes "tryExportItem R P db options summary w = Some (r, w')"
  shows "(\<exists>e. r = Inl e \<and> counts w' = counts w) \<or>
         (\<exists>e. r = Inl e \<and> \<not> channelNeverThrows options \<and>
          counts w' = (exported (w_result w) + 1, skipped (w_result w), failed (w_result w),
                       cancelled (w_result w))) \<or>
         (r = Inr Break \<and>
          counts w' = (exported (w_result w), skipped (w_result w), failed (w_result w), True)) \<or>
         (r = Inr Continue \<and>
          counts w' = (exported (w_result w) + 1, skipped (w_result w), failed (w_result w),
                       cancelled (w_result w))) \<or>
         (r = Inr Continue \<and>
          counts w' = (exported (w_result w), skipped (w_result w) + 1, failed (w_result w),
                       cancelled (w_result w)))"
proof (cases "getItemExportData db (s_itemId summary)")
  case (Inl e)
  have "tryExportItem R P db options summary w = Some (Inl e, w)"
    by (rule tryExportItem_load_failure [OF Inl])
  with assms show ?thesis by auto
next
  case (Inr item)
  show ?thesis
  proof (cases "fsAccess R (w_fs w) (itemTarget P options item)")
    case False
    from tryExportItem_fresh [OF Inr False] assms
    have "writeItem R P options item (itemPaths P options item) w = Some (r, w')" by simp
    from writeItem_outcome [OF this] show ?thesis by blast
  next
    case True
    show ?thesis
    proof (cases "resolveConflict options (itemTarget P options item) item")
      case (Inl e)
      from tryExportItem_conflict_throws [OF Inr True this] assms show ?thesis by auto
    next
      case d: (Inr decision)
      show ?thesis
      proof (cases decision)
        case Cancel
        from tryExportItem_cancel [OF Inr True d [unfolded Cancel]] assms show ?thesis
          by (auto simp: counts_def)
      next
        case Skip
        from tryExportItem_skip [OF Inr True d [unfolded Skip]] assms show ?thesis
          by (auto simp: counts_def)
      next
        case Overwrite
        from tryExportItem_overwrite [OF Inr True d [unfolded Overwrite]] assms
        have "ioBind (removeExistingTarget R P (outputRootPath options)
                 (markdownPath (itemPaths P options item)) (itemFolder (itemPaths P options item))
                 (flatPrefix (itemPaths P options item)))
              (\<lambda>_. writeItem R P options item (itemPaths P options item)) w = Some (r, w')"
          by simp
        then show ?thesis
        proof (cases rule: ioBindE)
          case (throw e)
          from removeExistingTarget_counts [OF throw(1)] throw(2) show ?thesis by simp
        next
          case (ok x w1)
          from removeExistingTarget_counts [OF ok(1)] have c: "counts w1 = counts w" .
          from c have e: "exported (w_result w1) = exported (w_result w)"
            and s: "skipped (w_result w1) = skipped (w_result w)"
            and f: "failed (w_result w1) = failed (w_result w)"
            and k: "cancelled (w_result w1) = cancelled (w_result w)"
            by (simp_all add: counts_def)
          from writeItem_outcome [OF ok(2)] show ?thesis
            by (simp only: c e s f k) blast
        qed
      qed
    qed
  qed
qed




lemma processItem_returned:
  "tryExportItem R P db options summary w = Some (Inr c, w1) \<Longrightarrow>
   processItem R P db options summary w = Some (Inr c, w1)"
  by (simp add: processItem_def)


lemma exportLoop_Break:
  "processItem R P db options summary w = Some (Inr Break, w1) \<Longrightarrow>
   exportLoop R P db options (summary # rest) w = Some (Inr (), w1)"
  by simp


text \<open>An iteration that breaks the loop has set the cancelled flag, whatever the channel does.\<close>

lemma processItem_Break:
  assumes "processItem R P db options summary w = Some (Inr Break, w')"
  shows "counts w' = (exported (w_result w), skipped (w_result w), failed (w_result w), True)"
proof (cases "tryExportItem R P db options summary w")
  case None
  with assms show ?thesis by (simp add: processItem_def)
next
  case (Some rw)
  obtain r w1 where rw: "rw = (r, w1)" by (cases rw)
  note t = Some [unfolded rw]
  show ?thesis
  proof (cases r)
    case (Inl err)
    obtain message where m: "err = Error message" by (cases err)
    from t Inl m assms show ?thesis
      by (auto simp: processItem_def ioPure_Some elim!: ioBindE)
  next
    case (Inr c')
    from processItem_returned [OF t [unfolded Inr]] assms have "c' = Break" and "w1 = w'"
      by simp_all
    with tryExportItem_outcome [OF t] Inr show ?thesis by auto
  qed
qed



lemma exportLoop_append:
  assumes "exportLoop R P db options before w0 = Some (Inr (), w)" and "\<not> cancelled (w_result w)"
  shows "exportLoop R P db options (before @ rest) w0 = exportLoop R P db options rest w"
  using assms
proof (induction before arbitrary: w0)
  case Nil
  then show ?case by simp
next
  case (Cons s before)
  show ?case
  proof (cases "processItem R P db options s w0")
    case None
    with Cons.prems show ?thesis by simp
  next
    case (Some rw)
    obtain r w1 where rw: "rw = (r, w1)" by (cases rw)
    note p = Some [unfolded rw]
    show ?thesis
    proof (cases r)
      case (Inl e)
      with p Cons.prems(1) show ?thesis by simp
    next
      case (Inr c)
      show ?thesis
      proof (cases c)
        case Continue
        from p Inr Continue Cons.prems(1)
        have "exportLoop R P db options before w1 = Some (Inr (), w)" by simp
        from Cons.IH [OF this Cons.prems(2)] p Inr Continue show ?thesis by simp
      next
        case Break
        from p Inr Break Cons.prems(1) have "w1 = w" by simp
        with processItem_Break [OF p [unfolded Inr Break]] have "cancelled (w_result w)"
          by (simp add: counts_def)
        with Cons.prems(2) show ?thesis by simp
      qed
    qed
  qed
qed

lemma exportItems_loop:
  "fsMkdir R (outputRootPath options) f = (None, f') \<Longrightarrow>
   exportLoop R P db options itemSummaries \<lparr> w_fs = f', w_result = emptyResult, w_log = log \<rparr>
     = Some (Inr (), w) \<Longrightarrow>
   exportItems R P db itemSummaries options f log = Some (Inr (w_result w), w_fs w, w_log w)"
  by (simp add: exportItems_def)

text \<open>
  Claim C2. When the batch loop reaches an item (nothing before it cancelled) whose target
  exists and the conflict collaborator answers \<open>cancel\<close>, the iteration breaks the loop with
  the cancelled flag set and nothing else changed: no counter moves, and the run ends in
  that world whatever items follow. \<open>exportItems\<close> then returns that result.
\<close>

theorem exportItems_cancel_stops_batch:
  assumes "exportLoop R P db options before w0 = Some (Inr (), w)"
    and "\<not> cancelled (w_result w)"
    and "getItemExportData db (s_itemId summary) = Inr item"
    and "fsAccess R (w_fs w) (itemTarget P options item)"
    and "resolveConflict options (itemTarget P options item) item = Inr Cancel"
  shows "processItem R P db options summary w
           = Some (Inr Break, w\<lparr>w_result := (w_result w)\<lparr>cancelled := True\<rparr>\<rparr>) \<and>
         exportLoop R P db options (before @ summary # after) w0
           = Some (Inr (), w\<lparr>w_result := (w_result w)\<lparr>cancelled := True\<rparr>\<rparr>) \<and>
         counts (w\<lparr>w_result := (w_result w)\<lparr>cancelled := True\<rparr>\<rparr>)
           = (exported (w_result w), skipped (w_result w), failed (w_result w), True) \<and>
         (fsMkdir R (outputRootPath options) f = (None, w_fs w0) \<and>
          w_result w0 = emptyResult \<longrightarrow>
            exportItems R P db (before @ summary # after) options f (w_log w0)
              = Some (Inr ((w_result w)\<lparr>cancelled := True\<rparr>), w_fs w, w_log w))"
proof -
  let ?w = "w\<lparr>w_result := (w_result w)\<lparr>cancelled := True\<rparr>\<rparr>"
  have p: "processItem R P db options summary w = Some (Inr Break, ?w)"
    by (rule processItem_returned) (rule tryExportItem_cancel [OF assms(3-5)])
  have "exportLoop R P db options (before @ summary # after) w0
          = exportLoop R P db options (summary # after) w"
    by (rule exportLoop_append [OF assms(1,2)])
  also have "\<dots> = Some (Inr (), ?w)" by (rule exportLoop_Break [OF p])
  finally have l: "exportLoop R P db options (before @ summary # after) w0 = Some (Inr (), ?w)" .
  have c: "counts ?w = (exported (w_result w), skipped (w_result w), failed (w_result w), True)"
    by (simp add: counts_def)
  have "exportItems R P db (before @ summary # after) options f (w_log w0)
              = Some (Inr ((w_result w)\<lparr>cancelled := True\<rparr>), w_fs w, w_log w)"
    if m: "fsMkdir R (outputRootPath options) f = (None, w_fs w0)" and e: "w_result w0 = emptyResult"
  proof -
    have "\<lparr> w_fs = w_fs w0, w_result = emptyResult, w_log = w_log w0 \<rparr> = w0"
      using e by simp
    with l have "exportLoop R P db options (before @ summary # after)
                   \<lparr> w_fs = w_fs w0, w_result = emptyResult, w_log = w_log w0 \<rparr> = Some (Inr (), ?w)"
      by simp
    from exportItems_loop [OF m this] show ?thesis by simp
  qed
  with p l c show ?thesis by blast
qed

lemma testDb_item1:
  "\<exists>item. getItemExportData testDb 1 = Inr item \<and> i_key item = lit ''ITEM1KEY'' \<and>
     i_title item = lit ''Distributed Cognition''"
  by (simp add: loader_eval db_eval mapNote_def mapAnnotation_def extractYear_def isDigit_def
     baseLibraryName_def)

lemma sample_target:
  assumes "i_key item = lit ''ITEM1KEY''" and "i_title item = lit ''Distributed Cognition''"
  shows "itemTarget posix (sampleOptions decision) item = sampleFolder"
proof -
  have "sanitizeSegment posix (lit ''Distributed Cognition'') = lit ''Distributed-Cognition''"
    by (simp add: naming_eval posix_def)
  then have "buildItemSlug posix item = lit ''ITEM1KEY-Distributed-Cognition''"
    using assms by (simp add: buildItemSlug_eq orElse_def lit_def)
  then show ?thesis
    by (simp add: itemTarget_def itemPaths_def resolveItemOutputPaths_def existingTargetOf_def
        sampleOptions_def coalesce_def Let_def posix_def sampleFolder_def)
       (simp add: lit_def)
qed

theorem exportItems_cancel_stops_batch_witness:
  "exportLoop sampleRuntime posix testDb (sampleOptions Cancel)
     ([] @ sampleSummary 1 # [sampleSummary 2]) (sampleWorld [sampleFolder])
   = Some (Inr (), (sampleWorld [sampleFolder])\<lparr>w_result := emptyResult\<lparr>cancelled := True\<rparr>\<rparr>)"
proof -
  from testDb_item1 obtain item where g: "getItemExportData testDb 1 = Inr item"
    and k: "i_key item = lit ''ITEM1KEY''" and t: "i_title item = lit ''Distributed Cognition''"
    by blast
  let ?w = "sampleWorld [sampleFolder]"
  have 1: "exportLoop sampleRuntime posix testDb (sampleOptions Cancel) [] ?w = Some (Inr (), ?w)"
    by simp
  have 2: "\<not> cancelled (w_result ?w)" by (simp add: sampleWorld_def emptyResult_def)
  have 3: "getItemExportData testDb (s_itemId (sampleSummary 1)) = Inr item"
    using g by (simp add: sampleSummary_def)
  have 4: "fsAccess sampleRuntime (w_fs ?w) (itemTarget posix (sampleOptions Cancel) item)"
    by (simp add: sample_target [OF k t] sampleRuntime_def sampleWorld_def)
  have 5: "resolveConflict (sampleOptions Cancel) (itemTarget posix (sampleOptions Cancel) item) item
             = Inr Cancel"
    by (simp add: sampleOptions_def)
  from exportItems_cancel_stops_batch [OF 1 2 3 4 5, of "[sampleSummary 2]"]
  have "exportLoop sampleRuntime posix testDb (sampleOptions Cancel)
          ([] @ sampleSummary 1 # [sampleSummary 2]) ?w
        = Some (Inr (), ?w\<lparr>w_result := (w_result ?w)\<lparr>cancelled := True\<rparr>\<rparr>)"
    by (rule conjunct2 [THEN conjunct1])
  then show ?thesis by (simp add: sampleWorld_def)
qed



subsection \<open>Partial-failure isolation and the output channel\<close>




subsection \<open>Attachment paths and the item they belong to\<close>









text \<open>
  What \<open>sanitizeSegment\<close> does guarantee for every input: only letters, digits, dots,
  underscores and hyphens come out (no white space is left), at most 80 of them, and the
  first one is neither a hyphen nor a dot.
\<close>

theorem sanitizeSegment_safe:
  "(\<forall>c \<in> set (sanitizeSegment P input). isAlnum c \<or> c = 46 \<or> c = 95 \<or> c = 45) \<and>
   length (sanitizeSegment P input) \<le> 80 \<and>
   (sanitizeSegment P input \<noteq> [] \<longrightarrow> \<not> isHyphenOrDot (hd (sanitizeSegment P input)))"
proof (intro conjI ballI impI)
  fix c assume "c \<in> set (sanitizeSegment P input)"
  then show "isAlnum c \<or> c = 46 \<or> c = 95 \<or> c = 45" by (rule sanitizeSegment_chars)
next
  show "length (sanitizeSegment P input) \<le> 80" by (rule sanitizeSegment_length)
next
  assume "sanitizeSegment P input \<noteq> []"
  then show "\<not> isHyphenOrDot (hd (sanitizeSegment P input))" by (rule sanitizeSegment_no_leading)
qed

theorem sanitizeSegment_safe_witness:
  "sanitizeSegment posix (lit ''  A Study: Language & Thought!  '') = lit ''A-Study-Language-Thought'' \<and>
   \<not> isHyphenOrDot (hd (sanitizeSegment posix (lit ''  A Study: Language & Thought!  ''))) \<and>
   length (sanitizeSegment posix (lit ''  A Study: Language & Thought!  '')) \<le> 80"
proof -
  let ?s = "sanitizeSegment posix (lit ''  A Study: Language & Thought!  '')"
  have v: "?s = lit ''A-Study-Language-Thought''"
    by (simp add: naming_eval posix_def)
  then have ne: "?s \<noteq> []" by (simp add: lit_def)
  note s = sanitizeSegment_safe [of posix "lit ''  A Study: Language & Thought!  ''"]
  from s have "?s \<noteq> [] \<longrightarrow> \<not> isHyphenOrDot (hd ?s)" by (rule conjunct2 [THEN conjunct2])
  from this ne have h: "\<not> isHyphenOrDot (hd ?s)" by (rule mp)
  from s have l: "length ?s \<le> 80" by (rule conjunct2 [THEN conjunct1])
  from v h l show ?thesis by (intro conjI)
qed

text \<open>
  The aggregate of the first item of the repository's test database, as test/queries.test.ts
  expects it: one attachment, a PDF, two notes and one annotation.
\<close>

theorem getItemExportData_test_database:
  "\<exists>item. getItemExportData testDb 1 = Inr item \<and>
     i_key item = lit ''ITEM1KEY'' \<and> length (i_attachments item) = 1 \<and>
     map a_isPdf (i_attachments item) = [True] \<and> length (i_notes item) = 2 \<and>
     length (i_annotations item) = 1 \<and> i_title item = lit ''Distributed Cognition'' \<and>
     i_year item = Some (lit ''1995'') \<and> i_libraryName item = lit ''My Library''"
  by (simp add: loader_eval db_eval mapNote_def mapAnnotation_def extractYear_def isDigit_def
     baseLibraryName_def)

lemma posix_parse_paper: "pathParse posix (lit ''paper (final).pdf'') =
   \<lparr> root = [], dir = [], base = lit ''paper (final).pdf'', ext = lit ''.pdf'', name = lit ''paper (final)'' \<rparr>"
  by (simp add: posix_eval lit_def)

lemma sanitize_paper: "sanitizeSegment posix (lit ''paper (final)'') = lit ''paper-final''"
  by (simp add: naming_eval posix_def)

text \<open>\<open>sanitizeFilename\<close> on the file name of the repository's naming test.\<close>

theorem sanitizeFilename_test:
  "sanitizeFilename posix (lit ''paper (final).pdf'') = lit ''paper-final.pdf''"
  by (simp add: sanitizeFilename_def posix_parse_paper sanitize_paper Let_def orElse_def) (simp add: lit_def isAlnum_def)

end
